theory Spec2Isabelle
  imports Complex_Main
begin

section \<open>Vectors\<close>

text \<open>
  The script (\<^verbatim>\<open>src/script.js\<close>) works on the vector classes of the three.js library.
  A \<^verbatim>\<open>THREE.Vector2\<close> and a \<^verbatim>\<open>THREE.Vector3\<close> are records of their components; the
  fields carry a prefix because \<open>x\<close>, \<open>y\<close> and \<open>z\<close> are wanted as variables.
  JavaScript numbers are modelled as real numbers: the arithmetic is the exact one, without
  the rounding, the overflow and the NaN of IEEE doubles.
\<close>

record Vector2 =
  v2x :: real
  v2y :: real

record Vector3 =
  v3x :: real
  v3y :: real
  v3z :: real

text \<open>\<^verbatim>\<open>new THREE.Vector3()\<close>: all components are 0.\<close>

definition Vector3_zero :: Vector3 where
  "Vector3_zero = \<lparr>v3x = 0, v3y = 0, v3z = 0\<rparr>"

text \<open>\<^verbatim>\<open>Number(b)\<close> on a boolean: 1 for true, 0 for false.\<close>

definition Number_of_bool :: "bool \<Rightarrow> real" where
  "Number_of_bool b = (if b then 1 else 0)"

text \<open>\<^verbatim>\<open>a || b\<close> on numbers: \<open>b\<close> when \<open>a\<close> is falsy, and the only falsy real is 0.\<close>

definition js_or :: "real \<Rightarrow> real \<Rightarrow> real" where
  "js_or a b = (if a = 0 then b else a)"

text \<open>
  The methods of \<^verbatim>\<open>THREE.Vector3\<close> that \<^verbatim>\<open>animate\<close> relies on belong to the three.js library
  imported at line 3, which is not under \<^verbatim>\<open>src/\<close>. The spec asks for the direction to be
  "normalized to unit length when non-zero (zero vector stays zero)"; the definitions
  below follow the way three.js does it.
\<close>

text \<open>
  Modelled from the spec: \<^verbatim>\<open>Vector3.length\<close> of three.js, the Euclidean length behind the
  spec's "unit length": \<^verbatim>\<open>Math.sqrt(x * x + y * y + z * z)\<close>.
\<close>

definition length3 :: "Vector3 \<Rightarrow> real" where
  "length3 v = sqrt (v3x v * v3x v + v3y v * v3y v + v3z v * v3z v)"

text \<open>
  Modelled from the spec: \<^verbatim>\<open>Vector3.multiplyScalar\<close> of three.js multiplies each
  component by the scalar.
\<close>

definition multiplyScalar :: "Vector3 \<Rightarrow> real \<Rightarrow> Vector3" where
  "multiplyScalar v k = \<lparr>v3x = v3x v * k, v3y = v3y v * k, v3z = v3z v * k\<rparr>"

text \<open>
  Modelled from the spec: \<^verbatim>\<open>Vector3.divideScalar\<close> of three.js,
  \<^verbatim>\<open>divideScalar(s) { return this.multiplyScalar(1 / s); }\<close>.
\<close>

definition divideScalar :: "Vector3 \<Rightarrow> real \<Rightarrow> Vector3" where
  "divideScalar v k = multiplyScalar v (1 / k)"

text \<open>
  Modelled from the spec: the scalar that \<^verbatim>\<open>Vector3.normalize\<close> of three.js divides by,
  \<^verbatim>\<open>this.length() || 1\<close>: the length, and 1 for a vector of length 0, so that the "zero
  vector stays zero" without a division by zero.
\<close>

definition normalize_divisor :: "Vector3 \<Rightarrow> real" where
  "normalize_divisor v = js_or (length3 v) 1"

text \<open>
  Modelled from the spec: \<^verbatim>\<open>Vector3.normalize\<close> of three.js,
  \<^verbatim>\<open>normalize() { return this.divideScalar(this.length() || 1); }\<close>, the spec's "normalize
  to unit length when non-zero". The name carries a 3 because \<open>normalize\<close> is a constant
  of HOL.
\<close>

definition normalize3 :: "Vector3 \<Rightarrow> Vector3" where
  "normalize3 v = divideScalar v (normalize_divisor v)"

section \<open>The state of the script\<close>

text \<open>
  The globals that the handlers and \<^verbatim>\<open>animate\<close> read and write (lines 14--21): the camera's
  position and rotation, the four movement flags, \<^verbatim>\<open>canJump\<close>, \<^verbatim>\<open>velocity\<close> and
  \<^verbatim>\<open>direction\<close>. \<open>mouseListener\<close> tells whether \<^verbatim>\<open>onMouseMove\<close> is registered on the
  document (lines 31--37).
\<close>

record Camera =
  position :: Vector3
  rotation :: Vector3

record game =
  camera :: Camera
  moveForward :: bool
  moveBackward :: bool
  moveLeft :: bool
  moveRight :: bool
  canJump :: bool
  velocity :: Vector3
  direction :: Vector3
  mouseListener :: bool

text \<open>The state after the top-level statements: the camera is set to (8, 10, 8) at line 15.\<close>

definition initial :: game where
  "initial = \<lparr>camera = \<lparr>position = \<lparr>v3x = 8, v3y = 10, v3z = 8\<rparr>, rotation = Vector3_zero\<rparr>,
     moveForward = False, moveBackward = False, moveLeft = False, moveRight = False,
     canJump = False, velocity = Vector3_zero, direction = Vector3_zero,
     mouseListener = False\<rparr>"

section \<open>Mouse look (lines 31--45)\<close>

text \<open>
  A \<^verbatim>\<open>mousemove\<close> event; a browser without the movement properties leaves them
  undefined (\<open>None\<close>), and \<^verbatim>\<open>event.movementX || 0\<close> reads that as 0.
\<close>

record MouseEvent =
  movementX :: "real option"
  movementY :: "real option"

definition or_zero :: "real option \<Rightarrow> real" where
  "or_zero m = (case m of None \<Rightarrow> 0 | Some v \<Rightarrow> js_or v 0)"

definition onMouseMove :: "MouseEvent \<Rightarrow> game \<Rightarrow> game" where
  "onMouseMove event s =
     (let mX = or_zero (movementX event);
          mY = or_zero (movementY event);
          r = rotation (camera s);
          ry = v3y r - mX * 0.002;
          rx = v3x r - mY * 0.002;
          rx' = max (- pi / 2) (min (pi / 2) rx)
      in s\<lparr>camera := (camera s)\<lparr>rotation := r\<lparr>v3y := ry, v3x := rx'\<rparr>\<rparr>\<rparr>)"

text \<open>
  \<^verbatim>\<open>onPointerLockChange\<close>: the listener is added when the pointer is locked on the body
  (\<open>locked\<close>) and removed otherwise.
\<close>

definition onPointerLockChange :: "bool \<Rightarrow> game \<Rightarrow> game" where
  "onPointerLockChange locked s = s\<lparr>mouseListener := locked\<rparr>"

section \<open>Keyboard (lines 134--154)\<close>

definition keydown :: "string \<Rightarrow> game \<Rightarrow> game" where
  "keydown code s =
     (if code = ''KeyW'' then s\<lparr>moveForward := True\<rparr>
      else if code = ''KeyS'' then s\<lparr>moveBackward := True\<rparr>
      else if code = ''KeyA'' then s\<lparr>moveLeft := True\<rparr>
      else if code = ''KeyD'' then s\<lparr>moveRight := True\<rparr>
      else if code = ''Space'' then
        (let s1 = (if canJump s
                   then s\<lparr>velocity := (velocity s)\<lparr>v3y := v3y (velocity s) + 8\<rparr>\<rparr>
                   else s)
         in s1\<lparr>canJump := False\<rparr>)
      else s)"

definition keyup :: "string \<Rightarrow> game \<Rightarrow> game" where
  "keyup code s =
     (if code = ''KeyW'' then s\<lparr>moveForward := False\<rparr>
      else if code = ''KeyS'' then s\<lparr>moveBackward := False\<rparr>
      else if code = ''KeyA'' then s\<lparr>moveLeft := False\<rparr>
      else if code = ''KeyD'' then s\<lparr>moveRight := False\<rparr>
      else s)"

section \<open>The frame callback \<^verbatim>\<open>animate\<close> (lines 174--203)\<close>

text \<open>
  \<open>delta\<close> is the value of \<^verbatim>\<open>clock.getDelta()\<close>. \<open>animate_physics\<close> is lines 181--194:
  gravity and damping, the direction, the acceleration, the move of the camera.
\<close>

definition animate_physics :: "real \<Rightarrow> game \<Rightarrow> game" where
  "animate_physics delta s =
     (let vy = v3y (velocity s) - 9.8 * delta;
          vx = v3x (velocity s) - v3x (velocity s) * 10 * delta;
          vz = v3z (velocity s) - v3z (velocity s) * 10 * delta;
          d = normalize3 ((direction s)
                \<lparr>v3z := Number_of_bool (moveForward s) - Number_of_bool (moveBackward s),
                 v3x := Number_of_bool (moveRight s) - Number_of_bool (moveLeft s)\<rparr>);
          vz' = (if moveForward s \<or> moveBackward s then vz - v3z d * 20 * delta else vz);
          vx' = (if moveLeft s \<or> moveRight s then vx - v3x d * 20 * delta else vx);
          p = position (camera s);
          p' = \<lparr>v3x = v3x p + vx' * delta, v3y = v3y p + vy * delta, v3z = v3z p + vz' * delta\<rparr>
      in s\<lparr>velocity := \<lparr>v3x = vx', v3y = vy, v3z = vz'\<rparr>,
           direction := d,
           camera := (camera s)\<lparr>position := p'\<rparr>\<rparr>)"

text \<open>\<open>animate_ground\<close> is lines 196--200: the camera does not go below height 2.\<close>

definition animate_ground :: "game \<Rightarrow> game" where
  "animate_ground s =
     (if v3y (position (camera s)) < 2
      then s\<lparr>velocity := (velocity s)\<lparr>v3y := 0\<rparr>,
             camera := (camera s)\<lparr>position := (position (camera s))\<lparr>v3y := 2\<rparr>\<rparr>,
             canJump := True\<rparr>
      else s)"

definition animate :: "real \<Rightarrow> game \<Rightarrow> game" where
  "animate delta s = animate_ground (animate_physics delta s)"

section \<open>Events\<close>

text \<open>
  What the browser delivers to the script: key presses, animation frames with the
  clock's delta, pointer lock changes and mouse moves. A mouse move reaches
  \<open>onMouseMove\<close> only while the listener is registered.
\<close>

datatype event =
  KeyDown string
  | KeyUp string
  | Frame real
  | PointerLockChange bool
  | MouseMove MouseEvent

fun dispatch :: "game \<Rightarrow> event \<Rightarrow> game" where
  "dispatch s (KeyDown code) = keydown code s"
| "dispatch s (KeyUp code) = keyup code s"
| "dispatch s (Frame delta) = animate delta s"
| "dispatch s (PointerLockChange locked) = onPointerLockChange locked s"
| "dispatch s (MouseMove e) = (if mouseListener s then onMouseMove e s else s)"

definition run :: "event list \<Rightarrow> game \<Rightarrow> game" where
  "run es s = foldl dispatch s es"

section \<open>Blocks and the texture atlas (lines 52--84)\<close>

definition CHUNK_SIZE :: nat where
  "CHUNK_SIZE = 16"

text \<open>The table of block types; the entry of id 0 is \<^verbatim>\<open>null\<close>, air.\<close>

definition BLOCK_TYPES :: "int \<rightharpoonup> string option" where
  "BLOCK_TYPES = [0 \<mapsto> None, 1 \<mapsto> Some ''grass'', 2 \<mapsto> Some ''dirt'', 3 \<mapsto> Some ''stone'']"

definition atlasBlockSize :: real where
  "atlasBlockSize = 1 / 16"

text \<open>
  \<^verbatim>\<open>getUVForBlock(id)\<close>: the four corners of the cell of block \<open>id\<close> in the top row of the
  atlas. The body is arithmetic and an array literal: it has no guard and no \<^verbatim>\<open>throw\<close>,
  so the model is a total function.
\<close>

definition getUVForBlock :: "int \<Rightarrow> Vector2 list" where
  "getUVForBlock blockId =
     (let x = (real_of_int blockId - 1) * atlasBlockSize
      in [\<lparr>v2x = x, v2y = 1 - atlasBlockSize\<rparr>,
          \<lparr>v2x = x + atlasBlockSize, v2y = 1 - atlasBlockSize\<rparr>,
          \<lparr>v2x = x + atlasBlockSize, v2y = 1\<rparr>,
          \<lparr>v2x = x, v2y = 1\<rparr>])"

section \<open>The mesh of one block (lines 87--112)\<close>

text \<open>
  Of a \<^verbatim>\<open>THREE.Mesh\<close> the model keeps what \<^verbatim>\<open>createBlockMesh\<close> sets: the uv attribute of
  its geometry and its position. The material is the same for every mesh.
\<close>

record Mesh =
  geometry_uv :: "Vector2 list"
  mesh_position :: Vector3

text \<open>
  Modelled from the spec: \<^verbatim>\<open>THREE.BoxGeometry\<close> is three.js library code, not under
  \<^verbatim>\<open>src/\<close>. The spec's cube has 6 faces with a quad of 4 uv coordinates each; the uv
  attribute of a new box therefore has 24 entries, the corners of the unit square for
  each face. The loop of \<^verbatim>\<open>createBlockMesh\<close> overwrites all of them.
\<close>

definition BoxGeometry_uv :: "Vector2 list" where
  "BoxGeometry_uv =
     concat (replicate 6 [\<lparr>v2x = 0, v2y = 1\<rparr>, \<lparr>v2x = 1, v2y = 1\<rparr>,
                          \<lparr>v2x = 0, v2y = 0\<rparr>, \<lparr>v2x = 1, v2y = 0\<rparr>])"

text \<open>
  Modelled from the spec: \<^verbatim>\<open>BufferAttribute.setXY(i, u, v)\<close> of three.js, with which the
  quad of uv coordinates is put on the faces, writes entry \<open>i\<close> of the attribute's typed
  array; a write beyond the end of a typed array is ignored, as \<open>list_update\<close> does.
\<close>

definition setXY :: "Vector2 list \<Rightarrow> nat \<Rightarrow> real \<Rightarrow> real \<Rightarrow> Vector2 list" where
  "setXY attr i u v = attr[i := \<lparr>v2x = u, v2y = v\<rparr>]"

text \<open>The loop of lines 96--101, from index \<open>i\<close> on, in steps of 4.\<close>

function uv_loop :: "Vector2 list \<Rightarrow> nat \<Rightarrow> Vector2 list \<Rightarrow> Vector2 list" where
  "uv_loop uv i attr =
     (if i < length attr
      then uv_loop uv (i + 4)
             (setXY (setXY (setXY (setXY attr
                (i + 0) (v2x (uv ! 0)) (v2y (uv ! 0)))
                (i + 1) (v2x (uv ! 1)) (v2y (uv ! 1)))
                (i + 2) (v2x (uv ! 2)) (v2y (uv ! 2)))
                (i + 3) (v2x (uv ! 3)) (v2y (uv ! 3)))
      else attr)"
  by pat_completeness auto
termination
  by (relation "measure (\<lambda>(uv, i, attr). length attr - i)") (auto simp: setXY_def)

definition createBlockMesh :: "int \<Rightarrow> real \<Rightarrow> real \<Rightarrow> real \<Rightarrow> Mesh option" where
  "createBlockMesh blockId x y z =
     (if blockId = 0 then None
      else
        (let uv = getUVForBlock blockId;
             geometry = uv_loop uv 0 BoxGeometry_uv
         in Some \<lparr>geometry_uv = geometry,
                  mesh_position = \<lparr>v3x = x + 0.5, v3y = y + 0.5, v3z = z + 0.5\<rparr>\<rparr>))"

section \<open>The world (lines 114--131)\<close>

text \<open>
  The array \<^verbatim>\<open>world\<close> of line 115 is empty and is never written or read: the loops
  compute the block of each voxel and add its mesh to the scene at once. The scene is
  the list of the meshes added, in the order of the calls.
\<close>

text \<open>
  Modelled from the spec: \<^verbatim>\<open>scene.add\<close> of three.js, by which a cube instance is
  emitted: it appends an object to the scene's children and leaves the scene as it is
  for \<^verbatim>\<open>null\<close>.
\<close>

definition scene_add :: "Mesh list \<Rightarrow> Mesh option \<Rightarrow> Mesh list" where
  "scene_add scene m = (case m of None \<Rightarrow> scene | Some mesh \<Rightarrow> scene @ [mesh])"

text \<open>Lines 121--124: the block id of layer \<open>y\<close>.\<close>

definition layer_blockId :: "nat \<Rightarrow> int" where
  "layer_blockId y = (if y = 0 then 1 else if y < 4 then 2 else if y < 8 then 3 else 0)"

text \<open>Lines 121--128: the body of the innermost loop.\<close>

definition world_voxel :: "Mesh list \<Rightarrow> nat \<Rightarrow> nat \<Rightarrow> nat \<Rightarrow> Mesh list" where
  "world_voxel scene x z y =
     (let blockId = layer_blockId y
      in if blockId > 0
         then scene_add scene (createBlockMesh blockId (real x) (real y) (real z))
         else scene)"

definition world_loop :: "Mesh list \<Rightarrow> Mesh list" where
  "world_loop scene =
     foldl (\<lambda>scene x.
       foldl (\<lambda>scene z.
         foldl (\<lambda>scene y. world_voxel scene x z y) scene [0..<8])
       scene [0..<CHUNK_SIZE])
     scene [0..<CHUNK_SIZE]"

text \<open>The children of the scene after the script has run: the scene starts empty.\<close>

definition scene_children :: "Mesh list" where
  "scene_children = world_loop []"

section \<open>JavaScript numbers with their special values\<close>

text \<open>
  The definitions above compute in the reals. A JavaScript number is an IEEE double: a
  finite value, \<^verbatim>\<open>Infinity\<close>, \<^verbatim>\<open>-Infinity\<close> or \<^verbatim>\<open>NaN\<close>. The type \<open>jsnum\<close> has the three
  special values; a finite result is kept exact (the rounding to 53 bits is not
  modelled, nor is the sign of zero), and a result whose magnitude reaches
  \<open>2^1024 - 2^970\<close>, from where the rounding of a double gives an infinity, becomes
  that infinity. The movement update is given a second time over this type, operation by
  operation as in lines 181--200, for the properties that are about \<^verbatim>\<open>NaN\<close> and the
  infinities.
\<close>

datatype jsnum = Fin real | PInf | NInf | NaN

definition overflow_at :: real where
  "overflow_at = 2 ^ 1024 - 2 ^ 970"

definition js_number :: "real \<Rightarrow> jsnum" where
  "js_number r = (if overflow_at \<le> r then PInf else if r \<le> - overflow_at then NInf else Fin r)"

text \<open>Unary minus.\<close>

fun fneg :: "jsnum \<Rightarrow> jsnum" where
  "fneg (Fin a) = Fin (- a)"
| "fneg PInf = NInf"
| "fneg NInf = PInf"
| "fneg NaN = NaN"

text \<open>\<^verbatim>\<open>x + y\<close>: the sum of opposite infinities is \<^verbatim>\<open>NaN\<close>.\<close>

fun fadd :: "jsnum \<Rightarrow> jsnum \<Rightarrow> jsnum" where
  "fadd NaN y = NaN"
| "fadd x NaN = NaN"
| "fadd (Fin a) (Fin b) = js_number (a + b)"
| "fadd PInf NInf = NaN"
| "fadd NInf PInf = NaN"
| "fadd PInf y = PInf"
| "fadd NInf y = NInf"
| "fadd (Fin a) y = y"

text \<open>\<^verbatim>\<open>x - y\<close>.\<close>

definition fsub :: "jsnum \<Rightarrow> jsnum \<Rightarrow> jsnum" where
  "fsub x y = fadd x (fneg y)"

text \<open>The product of the infinity \<open>i\<close> with \<open>y\<close>: \<^verbatim>\<open>NaN\<close> for 0, else by the sign of \<open>y\<close>.\<close>

definition inf_times :: "jsnum \<Rightarrow> jsnum \<Rightarrow> jsnum" where
  "inf_times i y =
     (case y of
        NaN \<Rightarrow> NaN
      | PInf \<Rightarrow> i
      | NInf \<Rightarrow> fneg i
      | Fin b \<Rightarrow> (if b = 0 then NaN else if 0 < b then i else fneg i))"

text \<open>\<^verbatim>\<open>x * y\<close>.\<close>

fun fmul :: "jsnum \<Rightarrow> jsnum \<Rightarrow> jsnum" where
  "fmul NaN y = NaN"
| "fmul x NaN = NaN"
| "fmul (Fin a) (Fin b) = js_number (a * b)"
| "fmul PInf y = inf_times PInf y"
| "fmul NInf y = inf_times NInf y"
| "fmul (Fin a) y = inf_times y (Fin a)"

text \<open>
  \<^verbatim>\<open>x / y\<close>: a finite non-zero number over 0 is an infinity, 0 over 0 and an infinity over
  an infinity are \<^verbatim>\<open>NaN\<close>, a finite number over an infinity is 0.
\<close>

fun fdiv :: "jsnum \<Rightarrow> jsnum \<Rightarrow> jsnum" where
  "fdiv NaN y = NaN"
| "fdiv x NaN = NaN"
| "fdiv (Fin a) (Fin b) =
     (if b = 0 then (if a = 0 then NaN else if 0 < a then PInf else NInf)
      else js_number (a / b))"
| "fdiv (Fin a) y = Fin 0"
| "fdiv x (Fin b) = (if 0 \<le> b then x else fneg x)"
| "fdiv x y = NaN"

text \<open>\<^verbatim>\<open>Math.sqrt\<close>.\<close>

fun fsqrt :: "jsnum \<Rightarrow> jsnum" where
  "fsqrt (Fin a) = (if a < 0 then NaN else Fin (sqrt a))"
| "fsqrt PInf = PInf"
| "fsqrt NInf = NaN"
| "fsqrt NaN = NaN"

text \<open>\<^verbatim>\<open>x < y\<close>: false whenever a side is \<^verbatim>\<open>NaN\<close>.\<close>

fun flt :: "jsnum \<Rightarrow> jsnum \<Rightarrow> bool" where
  "flt NaN y = False"
| "flt x NaN = False"
| "flt (Fin a) (Fin b) = (a < b)"
| "flt PInf y = False"
| "flt x PInf = True"
| "flt NInf y = (y \<noteq> NInf)"
| "flt x NInf = False"

text \<open>\<^verbatim>\<open>a || b\<close> on numbers: 0 and \<^verbatim>\<open>NaN\<close> are falsy.\<close>

definition js_or_fp :: "jsnum \<Rightarrow> jsnum \<Rightarrow> jsnum" where
  "js_or_fp a b = (if a = Fin 0 \<or> a = NaN then b else a)"

definition Number_of_bool_fp :: "bool \<Rightarrow> jsnum" where
  "Number_of_bool_fp b = (if b then Fin 1 else Fin 0)"

text \<open>The global function \<^verbatim>\<open>isFinite\<close>: neither \<^verbatim>\<open>NaN\<close> nor an infinity.\<close>

definition isFinite :: "jsnum \<Rightarrow> bool" where
  "isFinite x = (case x of Fin r \<Rightarrow> True | PInf \<Rightarrow> False | NInf \<Rightarrow> False | NaN \<Rightarrow> False)"

text \<open>A finite number of magnitude at most \<open>k\<close>.\<close>

definition fin_le :: "real \<Rightarrow> jsnum \<Rightarrow> bool" where
  "fin_le k x = (case x of Fin r \<Rightarrow> \<bar>r\<bar> \<le> k | PInf \<Rightarrow> False | NInf \<Rightarrow> False | NaN \<Rightarrow> False)"

record Vector3_fp =
  fx :: jsnum
  fy :: jsnum
  fz :: jsnum

text \<open>
  Modelled from the spec: \<^verbatim>\<open>Vector3.length\<close> of three.js, which is not under \<^verbatim>\<open>src/\<close>,
  as \<open>length3\<close> above, over \<open>jsnum\<close>.
\<close>

definition length3_fp :: "Vector3_fp \<Rightarrow> jsnum" where
  "length3_fp v =
     fsqrt (fadd (fadd (fmul (fx v) (fx v)) (fmul (fy v) (fy v))) (fmul (fz v) (fz v)))"

text \<open>Modelled from the spec: \<^verbatim>\<open>Vector3.multiplyScalar\<close> of three.js, over \<open>jsnum\<close>.\<close>

definition multiplyScalar_fp :: "Vector3_fp \<Rightarrow> jsnum \<Rightarrow> Vector3_fp" where
  "multiplyScalar_fp v k = \<lparr>fx = fmul (fx v) k, fy = fmul (fy v) k, fz = fmul (fz v) k\<rparr>"

text \<open>
  Modelled from the spec: \<^verbatim>\<open>Vector3.divideScalar\<close> of three.js, over \<open>jsnum\<close>:
  \<^verbatim>\<open>multiplyScalar(1 / s)\<close>.
\<close>

definition divideScalar_fp :: "Vector3_fp \<Rightarrow> jsnum \<Rightarrow> Vector3_fp" where
  "divideScalar_fp v k = multiplyScalar_fp v (fdiv (Fin 1) k)"

text \<open>
  Modelled from the spec: the scalar that \<^verbatim>\<open>Vector3.normalize\<close> of three.js divides by,
  \<^verbatim>\<open>this.length() || 1\<close>, over \<open>jsnum\<close>.
\<close>

definition normalize_divisor_fp :: "Vector3_fp \<Rightarrow> jsnum" where
  "normalize_divisor_fp v = js_or_fp (length3_fp v) (Fin 1)"

text \<open>
  Modelled from the spec: \<^verbatim>\<open>Vector3.normalize\<close> of three.js, over \<open>jsnum\<close>:
  \<^verbatim>\<open>divideScalar(this.length() || 1)\<close>, the spec's "normalize to unit length when
  non-zero (zero vector stays zero)".
\<close>

definition normalize3_fp :: "Vector3_fp \<Rightarrow> Vector3_fp" where
  "normalize3_fp v = divideScalar_fp v (normalize_divisor_fp v)"

text \<open>The globals that \<^verbatim>\<open>animate\<close> reads and writes, with numbers in \<open>jsnum\<close>.\<close>

record game_fp =
  position_fp :: Vector3_fp
  moveForward_fp :: bool
  moveBackward_fp :: bool
  moveLeft_fp :: bool
  moveRight_fp :: bool
  canJump_fp :: bool
  velocity_fp :: Vector3_fp
  direction_fp :: Vector3_fp

text \<open>Lines 181--194 over \<open>jsnum\<close>; \<^verbatim>\<open>a * 10 * delta\<close> is \<^verbatim>\<open>(a * 10) * delta\<close>.\<close>

definition animate_physics_fp :: "jsnum \<Rightarrow> game_fp \<Rightarrow> game_fp" where
  "animate_physics_fp delta s =
     (let vy = fsub (fy (velocity_fp s)) (fmul (Fin 9.8) delta);
          vx = fsub (fx (velocity_fp s)) (fmul (fmul (fx (velocity_fp s)) (Fin 10)) delta);
          vz = fsub (fz (velocity_fp s)) (fmul (fmul (fz (velocity_fp s)) (Fin 10)) delta);
          d = normalize3_fp ((direction_fp s)
                \<lparr>fz := fsub (Number_of_bool_fp (moveForward_fp s))
                              (Number_of_bool_fp (moveBackward_fp s)),
                 fx := fsub (Number_of_bool_fp (moveRight_fp s))
                              (Number_of_bool_fp (moveLeft_fp s))\<rparr>);
          vz' = (if moveForward_fp s \<or> moveBackward_fp s
                 then fsub vz (fmul (fmul (fz d) (Fin 20)) delta) else vz);
          vx' = (if moveLeft_fp s \<or> moveRight_fp s
                 then fsub vx (fmul (fmul (fx d) (Fin 20)) delta) else vx);
          p = position_fp s;
          p' = \<lparr>fx = fadd (fx p) (fmul vx' delta), fy = fadd (fy p) (fmul vy delta),
                fz = fadd (fz p) (fmul vz' delta)\<rparr>
      in s\<lparr>velocity_fp := \<lparr>fx = vx', fy = vy, fz = vz'\<rparr>,
           direction_fp := d,
           position_fp := p'\<rparr>)"

text \<open>Lines 196--200 over \<open>jsnum\<close>.\<close>

definition animate_ground_fp :: "game_fp \<Rightarrow> game_fp" where
  "animate_ground_fp s =
     (if flt (fy (position_fp s)) (Fin 2)
      then s\<lparr>velocity_fp := (velocity_fp s)\<lparr>fy := Fin 0\<rparr>,
             position_fp := (position_fp s)\<lparr>fy := Fin 2\<rparr>,
             canJump_fp := True\<rparr>
      else s)"

definition animate_fp :: "jsnum \<Rightarrow> game_fp \<Rightarrow> game_fp" where
  "animate_fp delta s = animate_ground_fp (animate_physics_fp delta s)"

text \<open>
  Two states with no flag set. \<open>coasting\<close> holds the values that the script has after W
  was held for a frame of 1 s and D for a frame of 0.25 s and both were released (lemma
  \<open>coasting_reached\<close> below): it moves along x and z and its last direction is not zero.
  \<open>hurtling\<close> stands on the ground with a velocity of \<open>10^308\<close> along z.
\<close>

definition coasting :: game_fp where
  "coasting =
     \<lparr>position_fp = \<lparr>fx = Fin 6.75, fy = Fin 2, fz = Fin (- 4.5)\<rparr>,
      moveForward_fp = False, moveBackward_fp = False, moveLeft_fp = False,
      moveRight_fp = False, canJump_fp = True,
      velocity_fp = \<lparr>fx = Fin (- 5), fy = Fin 0, fz = Fin 30\<rparr>,
      direction_fp = \<lparr>fx = Fin 1, fy = Fin 0, fz = Fin 0\<rparr>\<rparr>"

definition hurtling :: game_fp where
  "hurtling =
     \<lparr>position_fp = \<lparr>fx = Fin 8, fy = Fin 2, fz = Fin 8\<rparr>,
      moveForward_fp = False, moveBackward_fp = False, moveLeft_fp = False,
      moveRight_fp = False, canJump_fp = True,
      velocity_fp = \<lparr>fx = Fin 0, fy = Fin 0, fz = Fin (10 ^ 308)\<rparr>,
      direction_fp = \<lparr>fx = Fin 0, fy = Fin 0, fz = Fin 0\<rparr>\<rparr>"

section \<open>Definitions used to state the properties\<close>

text \<open>
  The specification's wording of the direction: "normalized to unit length when
  non-zero", the zero vector staying zero.
\<close>

definition unit_when_nonzero :: "Vector3 \<Rightarrow> Vector3" where
  "unit_when_nonzero v =
     (if v3x v = 0 \<and> v3y v = 0 \<and> v3z v = 0 then v
      else \<lparr>v3x = v3x v / length3 v, v3y = v3y v / length3 v, v3z = v3z v / length3 v\<rparr>)"

text \<open>
  The specification's wording of steps 1 to 5 of a tick, as literal formulas: gravity,
  horizontal damping, the direction (right - left, 0, forward - backward) normalized when
  non-zero, the acceleration subtracted for the flags that are set, and the position
  advanced by the velocity. The result is the pair of the velocity and the position.
  It is compared below with \<open>animate_physics\<close> and \<open>animate\<close>, which come from the source.
\<close>

definition literal_tick :: "real \<Rightarrow> game \<Rightarrow> Vector3 \<times> Vector3" where
  "literal_tick dt s =
     (let vy = v3y (velocity s) - 9.8 * dt;
          vx = v3x (velocity s) - v3x (velocity s) * 10 * dt;
          vz = v3z (velocity s) - v3z (velocity s) * 10 * dt;
          dir = unit_when_nonzero
                  \<lparr>v3x = Number_of_bool (moveRight s) - Number_of_bool (moveLeft s),
                   v3y = 0,
                   v3z = Number_of_bool (moveForward s) - Number_of_bool (moveBackward s)\<rparr>;
          vz = (if moveForward s \<or> moveBackward s then vz - v3z dir * 20 * dt else vz);
          vx = (if moveLeft s \<or> moveRight s then vx - v3x dir * 20 * dt else vx);
          p = position (camera s)
      in (\<lparr>v3x = vx, v3y = vy, v3z = vz\<rparr>,
          \<lparr>v3x = v3x p + vx * dt, v3y = v3y p + vy * dt, v3z = v3z p + vz * dt\<rparr>))"

text \<open>The meshes of a scene that sit at position \<open>p\<close>.\<close>

definition meshes_at :: "Mesh list \<Rightarrow> Vector3 \<Rightarrow> Mesh list" where
  "meshes_at scene p = filter (\<lambda>m. mesh_position m = p) scene"

text \<open>What one run of the loop body adds to the scene for the voxel \<open>(x, y, z)\<close>.\<close>

definition voxel_meshes :: "nat \<Rightarrow> nat \<Rightarrow> nat \<Rightarrow> Mesh list" where
  "voxel_meshes x z y = world_voxel [] x z y"

section \<open>Vectors and the direction\<close>

lemmas vec_defs = Vector3_zero_def normalize3_def divideScalar_def multiplyScalar_def
  normalize_divisor_def js_or_def length3_def Number_of_bool_def

lemmas key_defs = keydown_def keyup_def onPointerLockChange_def onMouseMove_def

lemmas tick_defs = animate_def animate_ground_def animate_physics_def

lemma length3_nonneg: "0 \<le> length3 v"
  by (simp add: length3_def)

lemma length3_eq_0_iff: "length3 v = 0 \<longleftrightarrow> v3x v = 0 \<and> v3y v = 0 \<and> v3z v = 0"
proof -
  have "v3x v * v3x v + v3y v * v3y v + v3z v * v3z v = 0 \<longleftrightarrow>
      v3x v = 0 \<and> v3y v = 0 \<and> v3z v = 0"
    by (smt (verit) zero_le_square mult_eq_0_iff)
  then show ?thesis
    by (simp add: length3_def)
qed

text \<open>The scalar that \<open>normalize3\<close> divides by is never 0.\<close>

lemma normalize_divisor_pos: "0 < normalize_divisor v"
  using length3_nonneg [of v] by (simp add: normalize_divisor_def js_or_def)

text \<open>The way three.js normalizes agrees with the specification's wording.\<close>

lemma normalize3_unit: "normalize3 v = unit_when_nonzero v"
  by (cases v)
    (auto simp: normalize3_def divideScalar_def multiplyScalar_def normalize_divisor_def
      js_or_def unit_when_nonzero_def length3_eq_0_iff)

lemma normalize3_y0: "v3y v = 0 \<Longrightarrow> v3y (normalize3 v) = 0"
  by (simp add: normalize3_def divideScalar_def multiplyScalar_def)

lemma length3_unit:
  "length3 (unit_when_nonzero v) = (if v3x v = 0 \<and> v3y v = 0 \<and> v3z v = 0 then 0 else 1)"
proof (cases "v3x v = 0 \<and> v3y v = 0 \<and> v3z v = 0")
  case True
  then show ?thesis by (simp add: unit_when_nonzero_def length3_def)
next
  case False
  then have nz: "length3 v \<noteq> 0" by (simp add: length3_eq_0_iff)
  let ?l = "length3 v"
  have sq: "?l * ?l = v3x v * v3x v + v3y v * v3y v + v3z v * v3z v"
    by (simp add: length3_def)
  have "(v3x v / ?l) * (v3x v / ?l) + (v3y v / ?l) * (v3y v / ?l) + (v3z v / ?l) * (v3z v / ?l)
      = (v3x v * v3x v + v3y v * v3y v + v3z v * v3z v) / (?l * ?l)"
    by (simp add: add_divide_distrib)
  also have "\<dots> = 1" unfolding sq [symmetric] using nz by simp
  finally show ?thesis using False by (simp add: unit_when_nonzero_def length3_def)
qed

section \<open>Invariants of the event loop\<close>

text \<open>
  \<^verbatim>\<open>direction.y\<close> is never assigned: it is 0 at the start and normalizing keeps it 0.
\<close>

lemma dispatch_dir_y: "v3y (direction s) = 0 \<Longrightarrow> v3y (direction (dispatch s e)) = 0"
  by (cases e)
    (auto simp: keydown_def keyup_def animate_def animate_ground_def animate_physics_def
      onPointerLockChange_def onMouseMove_def Let_def normalize3_y0)

lemma run_dir_y: "v3y (direction s) = 0 \<Longrightarrow> v3y (direction (run es s)) = 0"
  unfolding run_def by (induction es arbitrary: s) (simp_all add: dispatch_dir_y)

lemma animate_ground_y: "2 \<le> v3y (position (camera (animate_ground s)))"
  by (simp add: animate_ground_def)

lemma dispatch_pos_y:
  "2 \<le> v3y (position (camera s)) \<Longrightarrow> 2 \<le> v3y (position (camera (dispatch s e)))"
  by (cases e)
    (auto simp: keydown_def keyup_def animate_def animate_ground_y
      onPointerLockChange_def onMouseMove_def Let_def)

lemma run_pos_y:
  "2 \<le> v3y (position (camera s)) \<Longrightarrow> 2 \<le> v3y (position (camera (run es s)))"
  unfolding run_def by (induction es arbitrary: s) (simp_all add: dispatch_pos_y)

lemma clamp_bounds: "(a::real) \<le> b \<Longrightarrow> a \<le> max a (min b x) \<and> max a (min b x) \<le> b"
  by auto

lemma onMouseMove_pitch:
  "- pi / 2 \<le> v3x (rotation (camera (onMouseMove e s)))
   \<and> v3x (rotation (camera (onMouseMove e s))) \<le> pi / 2"
proof -
  have "- pi / 2 \<le> pi / 2"
    using pi_ge_zero by simp
  from clamp_bounds [OF this] show ?thesis
    by (simp add: onMouseMove_def Let_def)
qed

lemma dispatch_pitch:
  "- pi / 2 \<le> v3x (rotation (camera s)) \<and> v3x (rotation (camera s)) \<le> pi / 2 \<Longrightarrow>
   - pi / 2 \<le> v3x (rotation (camera (dispatch s e)))
   \<and> v3x (rotation (camera (dispatch s e))) \<le> pi / 2"
  using onMouseMove_pitch [of "case e of MouseMove m \<Rightarrow> m" s]
  by (cases e) (auto simp: keydown_def keyup_def onPointerLockChange_def tick_defs Let_def)

lemma run_pitch:
  "- pi / 2 \<le> v3x (rotation (camera s)) \<and> v3x (rotation (camera s)) \<le> pi / 2 \<Longrightarrow>
   - pi / 2 \<le> v3x (rotation (camera (run es s))) \<and> v3x (rotation (camera (run es s))) \<le> pi / 2"
  unfolding run_def
proof (induction es arbitrary: s)
  case Nil
  then show ?case by simp
next
  case (Cons e es)
  from Cons.IH [OF dispatch_pitch [OF Cons.prems, of e]] show ?case
    by simp
qed

text \<open>Lines 181--194 compute the literal formulas, whenever \<^verbatim>\<open>direction.y\<close> is 0.\<close>

lemma physics_literal:
  "v3y (direction s) = 0 \<Longrightarrow>
     velocity (animate_physics dt s) = fst (literal_tick dt s) \<and>
     position (camera (animate_physics dt s)) = snd (literal_tick dt s)"
  by (cases s, cases "direction s")
    (simp add: animate_physics_def literal_tick_def Let_def normalize3_unit)

section \<open>The movement update\<close>

text \<open>
  Claim C1, as stated: one tick applies gravity, damping, the normalized direction, the
  acceleration and the move of the position, and starting at rest at (8, 10, 8) with
  only forward set and \<open>dt = 1\<close> the resulting velocity and position are those of the
  literal formulas. The formulas give the velocity (0, -9.8, -20) and the position
  (8, 0.2, -12); the tick of the source ends with the ground clamp of lines 196--200,
  and since 0.2 is below 2 it leaves the velocity (0, 0, -20) and the position
  (8, 2, -12). The state at rest with forward set is \<open>keydown ''KeyW'' initial\<close>.
\<close>

theorem tick_scenario_counterexample:
  "(velocity (animate 1 (keydown ''KeyW'' initial)),
    position (camera (animate 1 (keydown ''KeyW'' initial))))
     \<noteq> literal_tick 1 (keydown ''KeyW'' initial)
   \<and> literal_tick 1 (keydown ''KeyW'' initial) =
       (\<lparr>v3x = 0, v3y = - 9.8, v3z = - 20\<rparr>, \<lparr>v3x = 8, v3y = 0.2, v3z = - 12\<rparr>)
   \<and> velocity (animate 1 (keydown ''KeyW'' initial)) = \<lparr>v3x = 0, v3y = 0, v3z = - 20\<rparr>
   \<and> position (camera (animate 1 (keydown ''KeyW'' initial))) = \<lparr>v3x = 8, v3y = 2, v3z = - 12\<rparr>"
  by (simp add: tick_defs literal_tick_def unit_when_nonzero_def keydown_def initial_def
      vec_defs Let_def)

text \<open>
  Claim C1, amended: for every state (with \<^verbatim>\<open>direction.y = 0\<close>, which holds in every
  state the script reaches), every setting of the flags and every \<open>dt\<close>, lines 181--194
  produce exactly the velocity and position of the literal formulas, in their order; the
  tick then applies the ground clamp to them: when the position's y of the formulas is
  below 2, the tick's velocity has y = 0 and its position has y = 2, and otherwise they
  are those of the formulas.
\<close>

theorem tick_literal_then_ground:
  "(v3y (direction s) = 0 \<longrightarrow>
      (velocity (animate_physics dt s), position (camera (animate_physics dt s))) =
        literal_tick dt s
      \<and> velocity (animate dt s) =
          (if v3y (snd (literal_tick dt s)) < 2 then (fst (literal_tick dt s))\<lparr>v3y := 0\<rparr>
           else fst (literal_tick dt s))
      \<and> position (camera (animate dt s)) =
          (if v3y (snd (literal_tick dt s)) < 2 then (snd (literal_tick dt s))\<lparr>v3y := 2\<rparr>
           else snd (literal_tick dt s)))
   \<and> v3y (direction (run es initial)) = 0"
proof -
  have r: "v3y (direction (run es initial)) = 0"
    by (rule run_dir_y) (simp add: initial_def Vector3_zero_def)
  have "(velocity (animate_physics dt s), position (camera (animate_physics dt s))) =
        literal_tick dt s
      \<and> velocity (animate dt s) =
          (if v3y (snd (literal_tick dt s)) < 2 then (fst (literal_tick dt s))\<lparr>v3y := 0\<rparr>
           else fst (literal_tick dt s))
      \<and> position (camera (animate dt s)) =
          (if v3y (snd (literal_tick dt s)) < 2 then (snd (literal_tick dt s))\<lparr>v3y := 2\<rparr>
           else snd (literal_tick dt s))"
    if d: "v3y (direction s) = 0"
  proof -
    have p: "velocity (animate_physics dt s) = fst (literal_tick dt s)"
      "position (camera (animate_physics dt s)) = snd (literal_tick dt s)"
      using physics_literal [OF d, of dt] by simp_all
    show ?thesis
      by (simp add: animate_def animate_ground_def p)
  qed
  with r show ?thesis by blast
qed

theorem tick_literal_then_ground_witness:
  "v3y (direction (keydown ''KeyW'' initial)) = 0
   \<and> literal_tick 1 (keydown ''KeyW'' initial) =
       (\<lparr>v3x = 0, v3y = - 9.8, v3z = - 20\<rparr>, \<lparr>v3x = 8, v3y = 0.2, v3z = - 12\<rparr>)
   \<and> velocity (animate 1 (keydown ''KeyW'' initial)) = \<lparr>v3x = 0, v3y = 0, v3z = - 20\<rparr>
   \<and> position (camera (animate 1 (keydown ''KeyW'' initial))) = \<lparr>v3x = 8, v3y = 2, v3z = - 12\<rparr>"
proof -
  have d: "v3y (direction (keydown ''KeyW'' initial)) = 0"
    by (simp add: keydown_def initial_def Vector3_zero_def)
  have l: "literal_tick 1 (keydown ''KeyW'' initial) =
       (\<lparr>v3x = 0, v3y = - 9.8, v3z = - 20\<rparr>, \<lparr>v3x = 8, v3y = 0.2, v3z = - 12\<rparr>)"
    by (simp add: literal_tick_def unit_when_nonzero_def keydown_def initial_def vec_defs Let_def)
  show ?thesis
    using d tick_literal_then_ground [of "keydown ''KeyW'' initial" 1] by (simp add: l)
qed

text \<open>
  Claim C3: at the end of every tick the camera's y is at least 2, in whatever state the
  tick starts, and so in every state reached from the initial one by any sequence of
  events; whenever lines 181--194 take the y below 2, the tick ends with y exactly 2,
  the velocity's y exactly 0 and \<^verbatim>\<open>canJump\<close> true.
\<close>

theorem ground_invariant:
  "2 \<le> v3y (position (camera (animate delta s)))
   \<and> (v3y (position (camera (animate_physics delta s))) < 2 \<longrightarrow>
        v3y (position (camera (animate delta s))) = 2
        \<and> v3y (velocity (animate delta s)) = 0
        \<and> canJump (animate delta s))
   \<and> 2 \<le> v3y (position (camera (run es initial)))"
proof -
  have "2 \<le> v3y (position (camera initial))"
    by (simp add: initial_def)
  then have "2 \<le> v3y (position (camera (run es initial)))"
    by (rule run_pos_y)
  then show ?thesis
    by (simp add: animate_def animate_ground_def)
qed

theorem ground_invariant_witness:
  "v3y (position (camera (animate_physics 1 initial))) < 2
   \<and> v3y (position (camera (animate 1 initial))) = 2
   \<and> v3y (velocity (animate 1 initial)) = 0
   \<and> canJump (animate 1 initial)
   \<and> 2 \<le> v3y (position (camera (run [Frame 1, KeyDown ''Space'', Frame (1 / 2)] initial)))"
proof -
  have h: "v3y (position (camera (animate_physics 1 initial))) < 2"
    by (simp add: animate_physics_def initial_def vec_defs Let_def)
  show ?thesis
    using h ground_invariant [of 1 initial "[Frame 1, KeyDown ''Space'', Frame (1 / 2)]"]
    by simp
qed

text \<open>
  Claim C5: a press of Space while \<^verbatim>\<open>canJump\<close> holds (grounded) adds exactly 8 to the
  velocity's y, clears \<^verbatim>\<open>canJump\<close> and changes nothing else; a press while \<^verbatim>\<open>canJump\<close>
  is false (airborne) leaves the whole state, velocity and position included, as it is;
  and once \<^verbatim>\<open>canJump\<close> is false, the only event that makes it true again is a frame in
  which the ground clamp applies.
\<close>

theorem jump_consumed:
  "(canJump s \<longrightarrow>
      keydown ''Space'' s =
        s\<lparr>velocity := (velocity s)\<lparr>v3y := v3y (velocity s) + 8\<rparr>, canJump := False\<rparr>)
   \<and> (\<not> canJump s \<longrightarrow> keydown ''Space'' s = s)
   \<and> (\<not> canJump s \<and> canJump (dispatch s e) \<longrightarrow>
        (\<exists>delta. e = Frame delta \<and> v3y (position (camera (animate_physics delta s))) < 2))"
proof -
  have a: "canJump s \<longrightarrow>
      keydown ''Space'' s =
        s\<lparr>velocity := (velocity s)\<lparr>v3y := v3y (velocity s) + 8\<rparr>, canJump := False\<rparr>"
    by (simp add: keydown_def)
  have b: "\<not> canJump s \<longrightarrow> keydown ''Space'' s = s"
    by (simp add: keydown_def)
  have c: "\<not> canJump s \<and> canJump (dispatch s e) \<longrightarrow>
        (\<exists>delta. e = Frame delta \<and> v3y (position (camera (animate_physics delta s))) < 2)"
    by (cases e)
      (auto simp: key_defs Let_def animate_def animate_ground_def animate_physics_def
        split: if_splits)
  from a b c show ?thesis by blast
qed

theorem jump_consumed_witness:
  "canJump (animate 1 initial)
   \<and> v3y (velocity (animate 1 initial)) = 0
   \<and> v3y (velocity (keydown ''Space'' (animate 1 initial))) = 8
   \<and> \<not> canJump (keydown ''Space'' (animate 1 initial))
   \<and> position (camera (keydown ''Space'' (animate 1 initial))) =
       position (camera (animate 1 initial))
   \<and> \<not> canJump initial
   \<and> keydown ''Space'' initial = initial
   \<and> canJump (dispatch initial (Frame 1))
   \<and> v3y (position (camera (animate_physics 1 initial))) < 2"
proof -
  have g: "canJump (animate 1 initial)" "v3y (velocity (animate 1 initial)) = 0"
    by (simp_all add: tick_defs initial_def vec_defs Let_def)
  have n: "\<not> canJump initial"
    by (simp add: initial_def)
  have f: "canJump (dispatch initial (Frame 1))"
    using g by simp
  show ?thesis
    using g n f jump_consumed [of "animate 1 initial"] jump_consumed [of initial "Frame 1"]
    by auto
qed

section \<open>Mouse look\<close>

text \<open>
  Claim C10: after \<^verbatim>\<open>onMouseMove\<close> has run, in whatever state and for whatever event, the
  pitch \<^verbatim>\<open>rotation.x\<close> lies between \<open>-pi/2\<close> and \<open>pi/2\<close>, and it does so in every state
  reached from the initial one by any sequence of events; the yaw \<^verbatim>\<open>rotation.y\<close> is the
  old yaw minus 0.002 times the movement, without a clamp, so that a single event can
  bring it to any value \<open>t\<close>.
\<close>

theorem pitch_clamped:
  "- pi / 2 \<le> v3x (rotation (camera (onMouseMove e s)))
   \<and> v3x (rotation (camera (onMouseMove e s))) \<le> pi / 2
   \<and> - pi / 2 \<le> v3x (rotation (camera (run es initial)))
   \<and> v3x (rotation (camera (run es initial))) \<le> pi / 2
   \<and> v3y (rotation (camera (onMouseMove e s))) =
       v3y (rotation (camera s)) - or_zero (movementX e) * 0.002
   \<and> v3y (rotation (camera (onMouseMove
        \<lparr>movementX = Some ((v3y (rotation (camera s)) - t) * 500), movementY = my\<rparr> s))) = t"
proof -
  have i: "- pi / 2 \<le> v3x (rotation (camera initial)) \<and> v3x (rotation (camera initial)) \<le> pi / 2"
    using pi_ge_zero by (simp add: initial_def Vector3_zero_def)
  have y: "v3y (rotation (camera (onMouseMove
        \<lparr>movementX = Some ((v3y (rotation (camera s)) - t) * 500), movementY = my\<rparr> s))) = t"
    by (simp add: onMouseMove_def or_zero_def js_or_def Let_def diff_divide_distrib)
  from onMouseMove_pitch [of e s] run_pitch [OF i, of es] y show ?thesis
    by (simp add: onMouseMove_def Let_def)
qed

section \<open>The uv attribute of a block's mesh\<close>

declare uv_loop.simps [simp del]

lemma setXY_same: "setXY attr i (v2x q) (v2y q) = attr[i := q]"
  by (cases q) (simp add: setXY_def)

lemma uv_loop_length: "length (uv_loop uv i attr) = length attr"
proof (induction uv i attr rule: uv_loop.induct)
  case (1 uv i attr)
  show ?case
  proof (cases "i < length attr")
    case True
    with 1 show ?thesis
      by (subst uv_loop.simps) (simp add: setXY_def)
  next
    case False
    then show ?thesis
      by (subst uv_loop.simps) simp
  qed
qed

lemma mod4_window: "i mod 4 = 0 \<Longrightarrow> i \<le> j \<Longrightarrow> j < i + 4 \<Longrightarrow> j mod 4 = j - (i::nat)"
  by presburger

lemma uv_loop_nth:
  "i mod 4 = 0 \<Longrightarrow> j < length attr \<Longrightarrow>
     uv_loop uv i attr ! j = (if i \<le> j then uv ! (j mod 4) else attr ! j)"
proof (induction uv i attr rule: uv_loop.induct)
  case (1 uv i attr)
  show ?case
  proof (cases "i < length attr")
    case True
    let ?attr' = "attr[i := uv ! 0, i + 1 := uv ! 1, i + 2 := uv ! 2, i + 3 := uv ! 3]"
    have step: "uv_loop uv i attr = uv_loop uv (i + 4) ?attr'"
      by (subst uv_loop.simps) (simp add: True setXY_same)
    have m: "(i + 4) mod 4 = 0"
      using "1.prems"(1) by presburger
    have ih: "uv_loop uv (i + 4) ?attr' ! j = (if i + 4 \<le> j then uv ! (j mod 4) else ?attr' ! j)"
      using "1.IH" [OF True m] "1.prems"(2) by (simp add: setXY_same)
    show ?thesis
    proof (cases "j < i \<or> i + 4 \<le> j")
      case True
      then show ?thesis
        unfolding step ih by auto
    next
      case False
      then have w: "i \<le> j" "j < i + 4" by auto
      then have jm: "j mod 4 = j - i"
        using mod4_window [OF "1.prems"(1)] by simp
      from w have "j = i \<or> j = i + 1 \<or> j = i + 2 \<or> j = i + 3" by arith
      then show ?thesis
        unfolding step ih jm using "1.prems"(2) by auto
    qed
  next
    case False
    then show ?thesis
      using "1.prems"(2) by (subst uv_loop.simps) simp
  qed
qed

lemma getUVForBlock_length: "length (getUVForBlock b) = 4"
  by (simp add: getUVForBlock_def Let_def)

lemma BoxGeometry_uv_length: "length BoxGeometry_uv = 24"
  by (simp add: BoxGeometry_uv_def eval_nat_numeral)

lemma uv_loop_box:
  "j < 24 \<Longrightarrow> uv_loop uv 0 BoxGeometry_uv ! j = uv ! (j mod 4)"
  using uv_loop_nth [of 0 j BoxGeometry_uv uv] by (simp add: BoxGeometry_uv_length)

lemma replicate_quad_nth:
  "length uv = 4 \<Longrightarrow> j < 4 * n \<Longrightarrow> concat (replicate n uv) ! j = uv ! (j mod 4)"
proof (induction n arbitrary: j)
  case 0
  then show ?case by simp
next
  case (Suc n)
  show ?case
  proof (cases "j < 4")
    case True
    with Suc.prems show ?thesis by (simp add: nth_append)
  next
    case False
    then have "(j - 4) mod 4 = j mod 4"
      by (simp add: le_mod_geq)
    with False Suc.prems Suc.IH [of "j - 4"] show ?thesis
      by (simp add: nth_append)
  qed
qed

lemma uv_loop_box_eq:
  assumes "length uv = 4"
  shows "uv_loop uv 0 BoxGeometry_uv = concat (replicate 6 uv)"
proof (rule nth_equalityI)
  show "length (uv_loop uv 0 BoxGeometry_uv) = length (concat (replicate 6 uv))"
    using assms by (simp add: uv_loop_length BoxGeometry_uv_length length_concat sum_list_replicate)
next
  fix j assume "j < length (uv_loop uv 0 BoxGeometry_uv)"
  then have j: "j < 24"
    by (simp add: uv_loop_length BoxGeometry_uv_length)
  then show "uv_loop uv 0 BoxGeometry_uv ! j = concat (replicate 6 uv) ! j"
    using replicate_quad_nth [OF assms, of j 6] by (simp add: uv_loop_box)
qed

lemma createBlockMesh_Some:
  "b \<noteq> 0 \<Longrightarrow> createBlockMesh b x y z =
     Some \<lparr>geometry_uv = uv_loop (getUVForBlock b) 0 BoxGeometry_uv,
           mesh_position = \<lparr>v3x = x + 0.5, v3y = y + 0.5, v3z = z + 0.5\<rparr>\<rparr>"
  by (simp add: createBlockMesh_def Let_def)

lemma createBlockMesh_faces:
  "b \<noteq> 0 \<Longrightarrow> createBlockMesh b x y z =
     Some \<lparr>geometry_uv = concat (replicate 6 (getUVForBlock b)),
           mesh_position = \<lparr>v3x = x + 0.5, v3y = y + 0.5, v3z = z + 0.5\<rparr>\<rparr>"
  by (simp add: createBlockMesh_Some uv_loop_box_eq getUVForBlock_length)

section \<open>The meshes of the world\<close>

lemma layer_blockId_pos: "y < 8 \<Longrightarrow> 0 < layer_blockId y"
  by (simp add: layer_blockId_def)

lemma world_voxel_append: "world_voxel scene x z y = scene @ voxel_meshes x z y"
  by (simp add: voxel_meshes_def world_voxel_def scene_add_def Let_def split: option.splits)

lemma foldl_append_concat:
  "(\<And>sc a. f sc a = sc @ g a) \<Longrightarrow> foldl f sc xs = sc @ concat (map g xs)"
  by (induction xs arbitrary: sc) simp_all

lemma world_loop_append:
  "world_loop scene = scene @
     concat (map (\<lambda>x. concat (map (\<lambda>z. concat (map (\<lambda>y. voxel_meshes x z y) [0..<8]))
       [0..<CHUNK_SIZE])) [0..<CHUNK_SIZE])"
  unfolding world_loop_def
  by (rule foldl_append_concat, rule foldl_append_concat, rule foldl_append_concat)
     (rule world_voxel_append)

lemma voxel_meshes_Some:
  "y < 8 \<Longrightarrow> map Some (voxel_meshes x z y) = [createBlockMesh (layer_blockId y) (real x) (real y) (real z)]"
  using layer_blockId_pos [of y]
  by (simp add: voxel_meshes_def world_voxel_def scene_add_def Let_def createBlockMesh_Some)

lemma voxel_meshes_length: "y < 8 \<Longrightarrow> length (voxel_meshes x z y) = 1"
  using voxel_meshes_Some [of y x z] by (metis length_map length_Cons list.size(3) One_nat_def)

lemma length_concat_const:
  "(\<And>y. y \<in> set ys \<Longrightarrow> length (f y) = k) \<Longrightarrow> length (concat (map f ys)) = k * length ys"
  by (induction ys) simp_all

lemma scene_children_length: "length scene_children = 2048"
proof -
  have a: "length (concat (map (\<lambda>y. voxel_meshes x z y) [0..<8])) = 8" for x z
  proof -
    have "length (concat (map (\<lambda>y. voxel_meshes x z y) [0..<8])) = 1 * length [0..<8]"
      by (rule length_concat_const) (simp add: voxel_meshes_length)
    then show ?thesis by simp
  qed
  have b: "length (concat (map (\<lambda>z. concat (map (\<lambda>y. voxel_meshes x z y) [0..<8]))
             [0..<CHUNK_SIZE])) = 128" for x
  proof -
    have "length (concat (map (\<lambda>z. concat (map (\<lambda>y. voxel_meshes x z y) [0..<8]))
             [0..<CHUNK_SIZE])) = 8 * length [0..<CHUNK_SIZE]"
      by (rule length_concat_const) (rule a)
    then show ?thesis by (simp add: CHUNK_SIZE_def)
  qed
  have "length (concat (map (\<lambda>x. concat (map (\<lambda>z. concat (map (\<lambda>y. voxel_meshes x z y) [0..<8]))
             [0..<CHUNK_SIZE])) [0..<CHUNK_SIZE])) = 128 * length [0..<CHUNK_SIZE]"
    by (rule length_concat_const) (rule b)
  then show ?thesis
    by (simp add: scene_children_def world_loop_append CHUNK_SIZE_def)
qed

lemma concat_map_single:
  "concat (map (\<lambda>x. if int x = k then g x else []) [0..<n]) =
     (if 0 \<le> k \<and> k < int n then g (nat k) else [])"
  by (induction n) auto

lemma meshes_at_concat:
  "meshes_at (concat (map f xs)) p = concat (map (\<lambda>x. meshes_at (f x) p) xs)"
  by (simp add: meshes_at_def filter_concat comp_def)

lemma meshes_at_pick:
  assumes "\<And>x. meshes_at (f x) p = (if int x = k then g x else [])"
  shows "meshes_at (concat (map f [0..<n])) p = (if 0 \<le> k \<and> k < int n then g (nat k) else [])"
  by (simp only: meshes_at_concat assms concat_map_single)

lemma voxel_meshes_at:
  "meshes_at (voxel_meshes x z y)
      \<lparr>v3x = real_of_int a + 0.5, v3y = real_of_int b + 0.5, v3z = real_of_int c + 0.5\<rparr> =
     (if int y = b then (if int x = a \<and> int z = c then voxel_meshes x z y else []) else [])"
  by (auto simp: meshes_at_def voxel_meshes_def world_voxel_def scene_add_def Let_def createBlockMesh_def)

lemma column_meshes_at:
  "meshes_at (concat (map (\<lambda>y. voxel_meshes x z y) [0..<8]))
      \<lparr>v3x = real_of_int a + 0.5, v3y = real_of_int b + 0.5, v3z = real_of_int c + 0.5\<rparr> =
     (if int z = c
      then (if int x = a \<and> 0 \<le> b \<and> b < 8 then voxel_meshes x z (nat b) else [])
      else [])"
proof -
  have "meshes_at (concat (map (\<lambda>y. voxel_meshes x z y) [0..<8]))
      \<lparr>v3x = real_of_int a + 0.5, v3y = real_of_int b + 0.5, v3z = real_of_int c + 0.5\<rparr> =
     (if 0 \<le> b \<and> b < int 8
      then (if int x = a \<and> int z = c then voxel_meshes x z (nat b) else [])
      else [])"
    by (rule meshes_at_pick) (rule voxel_meshes_at)
  then show ?thesis
    by (simp split: if_splits)
qed

lemma row_meshes_at:
  "meshes_at (concat (map (\<lambda>z. concat (map (\<lambda>y. voxel_meshes x z y) [0..<8])) [0..<CHUNK_SIZE]))
      \<lparr>v3x = real_of_int a + 0.5, v3y = real_of_int b + 0.5, v3z = real_of_int c + 0.5\<rparr> =
     (if int x = a
      then (if 0 \<le> c \<and> c < 16 \<and> 0 \<le> b \<and> b < 8 then voxel_meshes x (nat c) (nat b) else [])
      else [])"
proof -
  have "meshes_at (concat (map (\<lambda>z. concat (map (\<lambda>y. voxel_meshes x z y) [0..<8])) [0..<CHUNK_SIZE]))
      \<lparr>v3x = real_of_int a + 0.5, v3y = real_of_int b + 0.5, v3z = real_of_int c + 0.5\<rparr> =
     (if 0 \<le> c \<and> c < int CHUNK_SIZE
      then (if int x = a \<and> 0 \<le> b \<and> b < 8 then voxel_meshes x (nat c) (nat b) else [])
      else [])"
    by (rule meshes_at_pick) (rule column_meshes_at)
  then show ?thesis
    by (simp add: CHUNK_SIZE_def split: if_splits)
qed

lemma scene_children_at:
  "meshes_at scene_children
      \<lparr>v3x = real_of_int a + 0.5, v3y = real_of_int b + 0.5, v3z = real_of_int c + 0.5\<rparr> =
     (if 0 \<le> a \<and> a < 16 \<and> 0 \<le> c \<and> c < 16 \<and> 0 \<le> b \<and> b < 8
      then voxel_meshes (nat a) (nat c) (nat b) else [])"
proof -
  have "meshes_at (concat (map (\<lambda>x. concat (map (\<lambda>z. concat (map (\<lambda>y. voxel_meshes x z y) [0..<8]))
          [0..<CHUNK_SIZE])) [0..<CHUNK_SIZE]))
      \<lparr>v3x = real_of_int a + 0.5, v3y = real_of_int b + 0.5, v3z = real_of_int c + 0.5\<rparr> =
     (if 0 \<le> a \<and> a < int CHUNK_SIZE
      then (if 0 \<le> c \<and> c < 16 \<and> 0 \<le> b \<and> b < 8 then voxel_meshes (nat a) (nat c) (nat b) else [])
      else [])"
    by (rule meshes_at_pick) (rule row_meshes_at)
  then show ?thesis
    by (simp add: scene_children_def world_loop_append CHUNK_SIZE_def split: if_splits)
qed

section \<open>The atlas\<close>

text \<open>
  Claim C7, as stated: the uv lookup fails if and only if the type is air or unknown.
  \<^verbatim>\<open>getUVForBlock\<close> has no failing path: for air (id 0) and for an id that is not in
  \<open>BLOCK_TYPES\<close> (99) it returns a quad like for any other id.
\<close>

theorem getUVForBlock_air_counterexample:
  "getUVForBlock 0 =
     [\<lparr>v2x = - 1 / 16, v2y = 15 / 16\<rparr>, \<lparr>v2x = 0, v2y = 15 / 16\<rparr>,
      \<lparr>v2x = 0, v2y = 1\<rparr>, \<lparr>v2x = - 1 / 16, v2y = 1\<rparr>]
   \<and> BLOCK_TYPES 0 = Some None
   \<and> getUVForBlock 99 =
     [\<lparr>v2x = 98 / 16, v2y = 15 / 16\<rparr>, \<lparr>v2x = 99 / 16, v2y = 15 / 16\<rparr>,
      \<lparr>v2x = 99 / 16, v2y = 1\<rparr>, \<lparr>v2x = 98 / 16, v2y = 1\<rparr>]
   \<and> BLOCK_TYPES 99 = None"
  by (simp add: getUVForBlock_def atlasBlockSize_def BLOCK_TYPES_def Let_def)

text \<open>
  Claim C7, amended: \<^verbatim>\<open>getUVForBlock\<close> never fails; for every id, air and unknown ids
  included, it returns the quad of 4 uv coordinates of cell \<open>id\<close> of the top row. Air is
  kept away from it by the caller: \<^verbatim>\<open>createBlockMesh\<close> returns \<^verbatim>\<open>null\<close> for id 0 before the
  lookup.
\<close>

theorem getUVForBlock_total:
  "length (getUVForBlock b) = 4
   \<and> getUVForBlock b =
     [\<lparr>v2x = (real_of_int b - 1) / 16, v2y = 15 / 16\<rparr>, \<lparr>v2x = real_of_int b / 16, v2y = 15 / 16\<rparr>,
      \<lparr>v2x = real_of_int b / 16, v2y = 1\<rparr>, \<lparr>v2x = (real_of_int b - 1) / 16, v2y = 1\<rparr>]
   \<and> createBlockMesh 0 x y z = None"
  by (simp add: getUVForBlock_def atlasBlockSize_def Let_def createBlockMesh_def diff_divide_distrib)

text \<open>
  Claim C9: for every id \<open>i \<ge> 1\<close> the lookup returns the quad with the corners
  \<open>((i-1)/16, 1 - 1/16)\<close>, \<open>(i/16, 1 - 1/16)\<close>, \<open>(i/16, 1)\<close>, \<open>((i-1)/16, 1)\<close>: the cell from
  \<open>(i-1) * cellSize\<close> to \<open>i * cellSize\<close> in the top row; and the uv attribute of the mesh
  that \<^verbatim>\<open>createBlockMesh\<close> returns is this quad six times over, one copy for each group
  of 4 of its 24 entries.
\<close>

theorem uv_quad_all_faces:
  "1 \<le> i \<Longrightarrow>
     getUVForBlock i =
       [\<lparr>v2x = (real_of_int i - 1) * (1 / 16), v2y = 1 - 1 / 16\<rparr>,
        \<lparr>v2x = real_of_int i * (1 / 16), v2y = 1 - 1 / 16\<rparr>,
        \<lparr>v2x = real_of_int i * (1 / 16), v2y = 1\<rparr>,
        \<lparr>v2x = (real_of_int i - 1) * (1 / 16), v2y = 1\<rparr>]
   \<and> createBlockMesh i x y z =
       Some \<lparr>geometry_uv = concat (replicate 6 (getUVForBlock i)),
             mesh_position = \<lparr>v3x = x + 0.5, v3y = y + 0.5, v3z = z + 0.5\<rparr>\<rparr>
   \<and> length (concat (replicate 6 (getUVForBlock i))) = 24"
proof -
  assume i: "1 \<le> i"
  then have "i \<noteq> 0" by simp
  then have m: "createBlockMesh i x y z =
       Some \<lparr>geometry_uv = concat (replicate 6 (getUVForBlock i)),
             mesh_position = \<lparr>v3x = x + 0.5, v3y = y + 0.5, v3z = z + 0.5\<rparr>\<rparr>"
    by (rule createBlockMesh_faces)
  have q: "getUVForBlock i =
       [\<lparr>v2x = (real_of_int i - 1) * (1 / 16), v2y = 1 - 1 / 16\<rparr>,
        \<lparr>v2x = real_of_int i * (1 / 16), v2y = 1 - 1 / 16\<rparr>,
        \<lparr>v2x = real_of_int i * (1 / 16), v2y = 1\<rparr>,
        \<lparr>v2x = (real_of_int i - 1) * (1 / 16), v2y = 1\<rparr>]"
    by (simp add: getUVForBlock_def atlasBlockSize_def Let_def diff_divide_distrib)
  have l: "length (concat (replicate 6 (getUVForBlock i))) = 24"
    by (simp add: length_concat sum_list_replicate getUVForBlock_length)
  from q m l show ?thesis by blast
qed

theorem uv_quad_all_faces_witness:
  "(1::int) \<le> 2
   \<and> getUVForBlock 2 =
       [\<lparr>v2x = 1 / 16, v2y = 15 / 16\<rparr>, \<lparr>v2x = 2 / 16, v2y = 15 / 16\<rparr>,
        \<lparr>v2x = 2 / 16, v2y = 1\<rparr>, \<lparr>v2x = 1 / 16, v2y = 1\<rparr>]
   \<and> createBlockMesh 2 0 1 0 =
       Some \<lparr>geometry_uv = concat (replicate 6 (getUVForBlock 2)),
             mesh_position = \<lparr>v3x = 0.5, v3y = 1.5, v3z = 0.5\<rparr>\<rparr>"
proof -
  have h: "(1::int) \<le> 2" by simp
  show ?thesis
    using uv_quad_all_faces [OF h, of 0 1 0] by simp
qed

section \<open>The world and its meshes\<close>

text \<open>
  Claim C2: every voxel \<open>(a, b, c)\<close> that the loops visit (\<open>0 \<le> a, c < 16\<close>, \<open>0 \<le> b < 8\<close>)
  has a block id above 0 and exactly one mesh of the scene sits at
  \<open>(a + 0.5, b + 0.5, c + 0.5)\<close>; at the centre of every other voxel there is no mesh;
  \<^verbatim>\<open>createBlockMesh\<close> makes no mesh for air; and the scene holds 2048 meshes.
\<close>

theorem mesh_world_correspondence:
  "(0 \<le> a \<and> a < 16 \<and> 0 \<le> c \<and> c < 16 \<and> 0 \<le> b \<and> b < 8 \<longrightarrow>
      0 < layer_blockId (nat b)
      \<and> length (meshes_at scene_children
          \<lparr>v3x = real_of_int a + 0.5, v3y = real_of_int b + 0.5, v3z = real_of_int c + 0.5\<rparr>) = 1)
   \<and> (\<not> (0 \<le> a \<and> a < 16 \<and> 0 \<le> c \<and> c < 16 \<and> 0 \<le> b \<and> b < 8) \<longrightarrow>
      meshes_at scene_children
          \<lparr>v3x = real_of_int a + 0.5, v3y = real_of_int b + 0.5, v3z = real_of_int c + 0.5\<rparr> = [])
   \<and> createBlockMesh 0 x y z = None
   \<and> length scene_children = 2048"
proof -
  have "0 \<le> b \<and> b < 8 \<longrightarrow> 0 < layer_blockId (nat b) \<and> length (voxel_meshes (nat a) (nat c) (nat b)) = 1"
  proof
    assume "0 \<le> b \<and> b < 8"
    then have "nat b < 8" by arith
    then show "0 < layer_blockId (nat b) \<and> length (voxel_meshes (nat a) (nat c) (nat b)) = 1"
      by (simp add: layer_blockId_pos voxel_meshes_length)
  qed
  moreover have "createBlockMesh 0 x y z = None"
    by (simp add: createBlockMesh_def)
  ultimately show ?thesis
    using scene_children_at [of a b c] by (simp add: scene_children_length)
qed

theorem mesh_world_correspondence_witness:
  "length (meshes_at scene_children \<lparr>v3x = 3 + 0.5, v3y = 5 + 0.5, v3z = 7 + 0.5\<rparr>) = 1
   \<and> meshes_at scene_children \<lparr>v3x = 3 + 0.5, v3y = 8 + 0.5, v3z = 7 + 0.5\<rparr> = []
   \<and> meshes_at scene_children \<lparr>v3x = - 1 + 0.5, v3y = 0 + 0.5, v3z = 7 + 0.5\<rparr> = []"
  using mesh_world_correspondence [of 3 7 5] mesh_world_correspondence [of 3 7 8]
    mesh_world_correspondence [of "- 1" 7 0]
  by simp

text \<open>
  Claim C4: for every \<open>(a, c)\<close> with \<open>0 \<le> a, c < 16\<close> the block generated at layer 0 is
  grass (id 1), at layers 1 to 3 dirt (id 2), at layers 4 to 7 stone (id 3): the one mesh
  at the voxel is the mesh of that block; at every other layer nothing is generated
  (air). The script keeps no grid, so the block of a voxel is read off the mesh that the
  loops add for it. The loops are deterministic: whatever the scene holds, a run appends
  the same list \<open>scene_children\<close> to it.
\<close>

theorem flat_terrain:
  "(0 \<le> a \<and> a < 16 \<and> 0 \<le> c \<and> c < 16 \<longrightarrow>
      (b = 0 \<longrightarrow>
         map Some (meshes_at scene_children
           \<lparr>v3x = real_of_int a + 0.5, v3y = real_of_int b + 0.5, v3z = real_of_int c + 0.5\<rparr>) =
         [createBlockMesh 1 (real_of_int a) (real_of_int b) (real_of_int c)])
      \<and> (1 \<le> b \<and> b < 4 \<longrightarrow>
         map Some (meshes_at scene_children
           \<lparr>v3x = real_of_int a + 0.5, v3y = real_of_int b + 0.5, v3z = real_of_int c + 0.5\<rparr>) =
         [createBlockMesh 2 (real_of_int a) (real_of_int b) (real_of_int c)])
      \<and> (4 \<le> b \<and> b < 8 \<longrightarrow>
         map Some (meshes_at scene_children
           \<lparr>v3x = real_of_int a + 0.5, v3y = real_of_int b + 0.5, v3z = real_of_int c + 0.5\<rparr>) =
         [createBlockMesh 3 (real_of_int a) (real_of_int b) (real_of_int c)])
      \<and> (b < 0 \<or> 8 \<le> b \<longrightarrow>
         meshes_at scene_children
           \<lparr>v3x = real_of_int a + 0.5, v3y = real_of_int b + 0.5, v3z = real_of_int c + 0.5\<rparr> = []))
   \<and> BLOCK_TYPES 1 = Some (Some ''grass'') \<and> BLOCK_TYPES 2 = Some (Some ''dirt'')
   \<and> BLOCK_TYPES 3 = Some (Some ''stone'') \<and> BLOCK_TYPES 0 = Some None
   \<and> world_loop scene = scene @ scene_children"
proof -
  have t: "BLOCK_TYPES 1 = Some (Some ''grass'') \<and> BLOCK_TYPES 2 = Some (Some ''dirt'')
     \<and> BLOCK_TYPES 3 = Some (Some ''stone'') \<and> BLOCK_TYPES 0 = Some None"
    by (simp add: BLOCK_TYPES_def)
  have d: "world_loop scene = scene @ scene_children"
    by (simp add: scene_children_def world_loop_append)
  have v: "0 \<le> b \<and> b < 8 \<longrightarrow> map Some (voxel_meshes (nat a) (nat c) (nat b)) =
      [createBlockMesh (layer_blockId (nat b)) (real_of_int a) (real_of_int b) (real_of_int c)]"
    if ac: "0 \<le> a" "0 \<le> c"
  proof
    assume "0 \<le> b \<and> b < 8"
    then have "nat b < 8" "0 \<le> b" by arith+
    with ac voxel_meshes_Some [of "nat b" "nat a" "nat c"]
    show "map Some (voxel_meshes (nat a) (nat c) (nat b)) =
      [createBlockMesh (layer_blockId (nat b)) (real_of_int a) (real_of_int b) (real_of_int c)]"
      by simp
  qed
  have l: "layer_blockId (nat b) = (if b \<le> 0 then 1 else if b < 4 then 2 else if b < 8 then 3 else 0)"
    by (auto simp: layer_blockId_def)
  from t d v l scene_children_at [of a b c] show ?thesis
    by auto
qed

theorem flat_terrain_witness:
  "map Some (meshes_at scene_children \<lparr>v3x = 3 + 0.5, v3y = 0 + 0.5, v3z = 7 + 0.5\<rparr>) =
     [createBlockMesh 1 3 0 7]
   \<and> map Some (meshes_at scene_children \<lparr>v3x = 3 + 0.5, v3y = 2 + 0.5, v3z = 7 + 0.5\<rparr>) =
     [createBlockMesh 2 3 2 7]
   \<and> map Some (meshes_at scene_children \<lparr>v3x = 3 + 0.5, v3y = 6 + 0.5, v3z = 7 + 0.5\<rparr>) =
     [createBlockMesh 3 3 6 7]
   \<and> meshes_at scene_children \<lparr>v3x = 3 + 0.5, v3y = 8 + 0.5, v3z = 7 + 0.5\<rparr> = []"
  using flat_terrain [of 3 7 0] flat_terrain [of 3 7 2] flat_terrain [of 3 7 6] flat_terrain [of 3 7 8]
  by simp

section \<open>The tick without input, with overflow\<close>

lemmas fp_defs = fsub_def inf_times_def js_or_fp_def
  Number_of_bool_fp_def length3_fp_def multiplyScalar_fp_def divideScalar_fp_def
  normalize_divisor_fp_def normalize3_fp_def

lemmas tick_fp_defs = animate_fp_def animate_ground_fp_def animate_physics_fp_def

text \<open>In exact arithmetic the script reaches the values of \<open>coasting\<close> by six events.\<close>

lemma coasting_reached:
  "run [KeyDown ''KeyW'', Frame 1, KeyUp ''KeyW'', KeyDown ''KeyD'', Frame (1 / 4),
        KeyUp ''KeyD''] initial =
     initial\<lparr>canJump := True, velocity := \<lparr>v3x = - 5, v3y = 0, v3z = 30\<rparr>,
       direction := \<lparr>v3x = 1, v3y = 0, v3z = 0\<rparr>,
       camera := \<lparr>position = \<lparr>v3x = 6.75, v3y = 2, v3z = - 4.5\<rparr>, rotation = Vector3_zero\<rparr>\<rparr>"
  by (simp add: run_def tick_defs key_defs vec_defs initial_def Let_def)

text \<open>The range of a double lies between \<open>10^303\<close> and \<open>10^309\<close>.\<close>

lemma overflow_at_big: "10 ^ 303 < overflow_at"
  by (simp add: overflow_at_def)

lemma overflow_at_below: "overflow_at \<le> 10 ^ 309"
  by (simp add: overflow_at_def)

lemma in_range: "a \<le> 10 ^ 303 \<Longrightarrow> a < overflow_at"
  using overflow_at_big by simp

lemma js_number_in_range: "\<bar>r\<bar> < overflow_at \<Longrightarrow> js_number r = Fin r"
  by (auto simp: js_number_def)

lemma js_number_small: "\<bar>r\<bar> \<le> 1000 \<Longrightarrow> js_number r = Fin r"
proof (rule js_number_in_range)
  assume "\<bar>r\<bar> \<le> 1000"
  also have "(1000::real) \<le> 10 ^ 303" by simp
  finally show "\<bar>r\<bar> < overflow_at" by (rule in_range)
qed

lemma js_number_overflow: "10 ^ 309 \<le> r \<Longrightarrow> js_number r = PInf"
  using overflow_at_below by (simp add: js_number_def)

lemma fin_le_Fin: "fin_le k (Fin r) \<longleftrightarrow> \<bar>r\<bar> \<le> k"
  by (simp add: fin_le_def)

lemma fin_leE: "fin_le k x \<Longrightarrow> (\<And>r. x = Fin r \<Longrightarrow> \<bar>r\<bar> \<le> k \<Longrightarrow> P) \<Longrightarrow> P"
  by (cases x) (simp_all add: fin_le_def)

lemma fin_le_isFinite: "fin_le k x \<Longrightarrow> isFinite x"
  by (cases x) (simp_all add: fin_le_def isFinite_def)

lemma fmul_fin_le:
  assumes "fin_le a x" and "fin_le b y" and "a * b < overflow_at"
  shows "fin_le (a * b) (fmul x y)"
proof -
  from assms(1) obtain r where x: "x = Fin r" and r: "\<bar>r\<bar> \<le> a" by (rule fin_leE)
  from assms(2) obtain t where y: "y = Fin t" and t: "\<bar>t\<bar> \<le> b" by (rule fin_leE)
  have "\<bar>r * t\<bar> = \<bar>r\<bar> * \<bar>t\<bar>" by (rule abs_mult)
  also have "\<dots> \<le> a * b"
    using r t by (intro mult_mono) auto
  finally have le: "\<bar>r * t\<bar> \<le> a * b" .
  with assms(3) have "js_number (r * t) = Fin (r * t)"
    by (intro js_number_in_range) simp
  with le show ?thesis
    by (simp add: x y fin_le_def)
qed

lemma fadd_fin_le:
  assumes "fin_le a x" and "fin_le b y" and "a + b < overflow_at"
  shows "fin_le (a + b) (fadd x y)"
proof -
  from assms(1) obtain r where x: "x = Fin r" and r: "\<bar>r\<bar> \<le> a" by (rule fin_leE)
  from assms(2) obtain t where y: "y = Fin t" and t: "\<bar>t\<bar> \<le> b" by (rule fin_leE)
  from r t have le: "\<bar>r + t\<bar> \<le> a + b" by simp
  with assms(3) have "js_number (r + t) = Fin (r + t)"
    by (intro js_number_in_range) simp
  with le show ?thesis
    by (simp add: x y fin_le_def)
qed

lemma fneg_fin_le: "fin_le a x \<Longrightarrow> fin_le a (fneg x)"
  by (cases x) (simp_all add: fin_le_def)

lemma fsub_fin_le:
  "fin_le a x \<Longrightarrow> fin_le b y \<Longrightarrow> a + b < overflow_at \<Longrightarrow> fin_le (a + b) (fsub x y)"
  unfolding fsub_def by (rule fadd_fin_le) (simp_all add: fneg_fin_le)

lemma js_or_fp_nonzero: "b \<noteq> Fin 0 \<Longrightarrow> js_or_fp a b \<noteq> Fin 0"
  by (simp add: js_or_fp_def)

lemma normalize_divisor_fp_nonzero: "normalize_divisor_fp v \<noteq> Fin 0"
  unfolding normalize_divisor_fp_def by (rule js_or_fp_nonzero) simp

lemma damp_fin_le:
  assumes "fin_le (10 ^ 100) v" and "fin_le (10 ^ 100) dt"
  shows "fin_le (10 ^ 100 + 10 ^ 100 * 10 * 10 ^ 100) (fsub v (fmul (fmul v (Fin 10)) dt))"
proof -
  have "fin_le (10 ^ 100 * 10) (fmul v (Fin 10))"
    using assms(1) by (rule fmul_fin_le) (simp_all add: fin_le_Fin in_range)
  then have "fin_le (10 ^ 100 * 10 * 10 ^ 100) (fmul (fmul v (Fin 10)) dt)"
    using assms(2) by (rule fmul_fin_le) (simp add: in_range)
  with assms(1) show ?thesis
    by (rule fsub_fin_le) (simp add: in_range)
qed

lemma gravity_fin_le:
  assumes "fin_le (10 ^ 100) v" and "fin_le (10 ^ 100) dt"
  shows "fin_le (10 ^ 100 + 10 * 10 ^ 100) (fsub v (fmul (Fin 9.8) dt))"
proof -
  have "fin_le 10 (Fin 9.8)"
    by (simp add: fin_le_Fin)
  then have "fin_le (10 * 10 ^ 100) (fmul (Fin 9.8) dt)"
    using assms(2) by (rule fmul_fin_le) (simp add: in_range)
  with assms(1) show ?thesis
    by (rule fsub_fin_le) (simp add: in_range)
qed

lemma move_fin_le:
  assumes "fin_le (10 ^ 100) p" and "fin_le k v" and "fin_le (10 ^ 100) dt"
    and "k \<le> 10 ^ 202"
  shows "isFinite (fadd p (fmul v dt))"
proof -
  from assms(2) have "0 \<le> k" by (rule fin_leE) simp
  then have "k * 10 ^ 100 \<le> 10 ^ 202 * 10 ^ 100"
    using assms(4) by (intro mult_mono) auto
  then have b: "k * 10 ^ 100 \<le> 10 ^ 302" by simp
  from b have m: "k * 10 ^ 100 < overflow_at"
    by (intro in_range) simp
  from b have a: "10 ^ 100 + k * 10 ^ 100 < overflow_at"
    by (intro in_range) simp
  from assms(2,3) m have "fin_le (k * 10 ^ 100) (fmul v dt)"
    by (rule fmul_fin_le)
  with assms(1) have "fin_le (10 ^ 100 + k * 10 ^ 100) (fadd p (fmul v dt))"
    using a by (rule fadd_fin_le)
  then show ?thesis by (rule fin_le_isFinite)
qed

lemma idle_physics_fp:
  assumes "\<not> moveForward_fp s" "\<not> moveBackward_fp s" "\<not> moveLeft_fp s" "\<not> moveRight_fp s"
    and "fy (direction_fp s) = Fin 0"
  shows "animate_physics_fp dt s =
     s\<lparr>velocity_fp :=
          \<lparr>fx = fsub (fx (velocity_fp s)) (fmul (fmul (fx (velocity_fp s)) (Fin 10)) dt),
           fy = fsub (fy (velocity_fp s)) (fmul (Fin 9.8) dt),
           fz = fsub (fz (velocity_fp s)) (fmul (fmul (fz (velocity_fp s)) (Fin 10)) dt)\<rparr>,
        direction_fp := \<lparr>fx = Fin 0, fy = Fin 0, fz = Fin 0\<rparr>,
        position_fp :=
          \<lparr>fx = fadd (fx (position_fp s))
                 (fmul (fsub (fx (velocity_fp s)) (fmul (fmul (fx (velocity_fp s)) (Fin 10)) dt)) dt),
           fy = fadd (fy (position_fp s))
                 (fmul (fsub (fy (velocity_fp s)) (fmul (Fin 9.8) dt)) dt),
           fz = fadd (fz (position_fp s))
                 (fmul (fsub (fz (velocity_fp s)) (fmul (fmul (fz (velocity_fp s)) (Fin 10)) dt)) dt)\<rparr>\<rparr>"
proof -
  have n: "fsub (Fin 0) (Fin 0) = Fin 0"
    by (simp add: fsub_def js_number_small)
  have d: "normalize3_fp ((direction_fp s)\<lparr>fz := Fin 0, fx := Fin 0\<rparr>) = \<lparr>fx = Fin 0, fy = Fin 0, fz = Fin 0\<rparr>"
    using assms(5)
    by (cases "direction_fp s")
      (simp add: normalize3_fp_def divideScalar_fp_def multiplyScalar_fp_def normalize_divisor_fp_def
        length3_fp_def js_or_fp_def js_number_small)
  show ?thesis
    using assms(1-4) by (simp add: animate_physics_fp_def Number_of_bool_fp_def n d Let_def)
qed

lemma idle_divisor_fp:
  assumes "\<not> moveForward_fp s" "\<not> moveBackward_fp s" "\<not> moveLeft_fp s" "\<not> moveRight_fp s"
    and "fy (direction_fp s) = Fin 0"
  shows "normalize_divisor_fp ((direction_fp s)
          \<lparr>fz := fsub (Number_of_bool_fp (moveForward_fp s)) (Number_of_bool_fp (moveBackward_fp s)),
           fx := fsub (Number_of_bool_fp (moveRight_fp s)) (Number_of_bool_fp (moveLeft_fp s))\<rparr>) = Fin 1"
  using assms
  by (simp add: Number_of_bool_fp_def fsub_def normalize_divisor_fp_def length3_fp_def js_or_fp_def
      js_number_small)

lemma animate_ground_fp_xz:
  "fx (velocity_fp (animate_ground_fp s)) = fx (velocity_fp s)"
  "fz (velocity_fp (animate_ground_fp s)) = fz (velocity_fp s)"
  "fx (position_fp (animate_ground_fp s)) = fx (position_fp s)"
  "fz (position_fp (animate_ground_fp s)) = fz (position_fp s)"
  "direction_fp (animate_ground_fp s) = direction_fp s"
  by (simp_all add: animate_ground_fp_def)

lemma animate_ground_fp_y:
  "isFinite (fy (velocity_fp s)) \<Longrightarrow> isFinite (fy (velocity_fp (animate_ground_fp s)))"
  "isFinite (fy (position_fp s)) \<Longrightarrow> isFinite (fy (position_fp (animate_ground_fp s)))"
  by (simp_all add: animate_ground_fp_def isFinite_def)

text \<open>
  \<^verbatim>\<open>direction.y\<close> is only written by \<^verbatim>\<open>normalize\<close>, which keeps a 0 there, whatever the
  flags are.
\<close>

lemma recip_sqrt2: "js_number (1 / sqrt 2) = Fin (1 / sqrt 2)"
proof (rule js_number_small)
  have "1 \<le> sqrt 2" by simp
  then have "1 / sqrt 2 \<le> 1" by simp
  moreover have "0 \<le> 1 / sqrt 2" by simp
  ultimately show "\<bar>1 / sqrt 2\<bar> \<le> 1000" by arith
qed

lemma direction_y_kept:
  "fy (direction_fp s) = Fin 0 \<Longrightarrow> fy (direction_fp (animate_fp dt s)) = Fin 0"
  by (cases "moveForward_fp s"; cases "moveBackward_fp s"; cases "moveLeft_fp s";
      cases "moveRight_fp s")
    (simp_all add: tick_fp_defs fp_defs Let_def js_number_small recip_sqrt2)

text \<open>
  Claim C8, as stated: for every movement state and every \<open>dt\<close>, with no flag set, the
  tick produces no \<^verbatim>\<open>NaN\<close> and no infinity in any component of the velocity or the
  position. In the state \<open>hurtling\<close> no flag is set and \<^verbatim>\<open>direction\<close> is the zero vector;
  with \<open>dt = 1\<close> the damping product \<^verbatim>\<open>velocity.z * 10\<close> exceeds the range of a double, so
  that the tick leaves \<^verbatim>\<open>-Infinity\<close> in \<^verbatim>\<open>velocity.z\<close> and in \<^verbatim>\<open>position.z\<close>, and the next
  tick \<^verbatim>\<open>NaN\<close> in \<^verbatim>\<open>velocity.z\<close>.
\<close>

theorem idle_overflow_counterexample:
  "\<not> moveForward_fp hurtling \<and> \<not> moveBackward_fp hurtling
   \<and> \<not> moveLeft_fp hurtling \<and> \<not> moveRight_fp hurtling
   \<and> direction_fp hurtling = \<lparr>fx = Fin 0, fy = Fin 0, fz = Fin 0\<rparr>
   \<and> velocity_fp hurtling = \<lparr>fx = Fin 0, fy = Fin 0, fz = Fin (10 ^ 308)\<rparr>
   \<and> velocity_fp (animate_fp (Fin 1) hurtling) = \<lparr>fx = Fin 0, fy = Fin 0, fz = NInf\<rparr>
   \<and> position_fp (animate_fp (Fin 1) hurtling) = \<lparr>fx = Fin 8, fy = Fin 2, fz = NInf\<rparr>
   \<and> \<not> isFinite (fz (velocity_fp (animate_fp (Fin 1) hurtling)))
   \<and> \<not> isFinite (fz (position_fp (animate_fp (Fin 1) hurtling)))
   \<and> fz (velocity_fp (animate_fp (Fin 1) (animate_fp (Fin 1) hurtling))) = NaN"
  by (simp add: hurtling_def tick_fp_defs fp_defs isFinite_def Let_def js_number_small
      js_number_overflow)

text \<open>
  Claim C8, amended: for every movement state (with \<^verbatim>\<open>direction.y = 0\<close>, which every tick
  keeps) and every \<open>dt\<close>, when none of the four flags is set, the direction is
  the zero vector, \<^verbatim>\<open>normalize\<close> divides it by 1 and not by 0 and leaves it the zero
  vector, and the tick adds no acceleration: \<^verbatim>\<open>velocity.x\<close> and \<^verbatim>\<open>velocity.z\<close> are only
  damped and the position moves by that damped velocity; for every vector the divisor of
  \<^verbatim>\<open>normalize\<close> is not 0. The tick leaves no \<^verbatim>\<open>NaN\<close> and no infinity in any component
  of the velocity or the position when \<open>dt\<close> and the components of the velocity and the
  position are finite and of magnitude at most \<open>10^100\<close>; beyond the range of a double the
  damping product overflows, as in the state \<open>hurtling\<close>.
\<close>

theorem idle_tick_safe:
  "normalize_divisor_fp v \<noteq> Fin 0
   \<and> (\<not> moveForward_fp s \<and> \<not> moveBackward_fp s \<and> \<not> moveLeft_fp s \<and> \<not> moveRight_fp s
      \<and> fy (direction_fp s) = Fin 0 \<longrightarrow>
      normalize_divisor_fp ((direction_fp s)
          \<lparr>fz := fsub (Number_of_bool_fp (moveForward_fp s)) (Number_of_bool_fp (moveBackward_fp s)),
           fx := fsub (Number_of_bool_fp (moveRight_fp s)) (Number_of_bool_fp (moveLeft_fp s))\<rparr>) = Fin 1
      \<and> direction_fp (animate_fp dt s) = \<lparr>fx = Fin 0, fy = Fin 0, fz = Fin 0\<rparr>
      \<and> fx (velocity_fp (animate_fp dt s)) =
          fsub (fx (velocity_fp s)) (fmul (fmul (fx (velocity_fp s)) (Fin 10)) dt)
      \<and> fz (velocity_fp (animate_fp dt s)) =
          fsub (fz (velocity_fp s)) (fmul (fmul (fz (velocity_fp s)) (Fin 10)) dt)
      \<and> fx (position_fp (animate_fp dt s)) =
          fadd (fx (position_fp s)) (fmul (fx (velocity_fp (animate_fp dt s))) dt)
      \<and> fz (position_fp (animate_fp dt s)) =
          fadd (fz (position_fp s)) (fmul (fz (velocity_fp (animate_fp dt s))) dt))
   \<and> (\<not> moveForward_fp s \<and> \<not> moveBackward_fp s \<and> \<not> moveLeft_fp s \<and> \<not> moveRight_fp s
      \<and> fy (direction_fp s) = Fin 0
      \<and> fin_le (10 ^ 100) dt
      \<and> fin_le (10 ^ 100) (fx (velocity_fp s)) \<and> fin_le (10 ^ 100) (fy (velocity_fp s))
      \<and> fin_le (10 ^ 100) (fz (velocity_fp s))
      \<and> fin_le (10 ^ 100) (fx (position_fp s)) \<and> fin_le (10 ^ 100) (fy (position_fp s))
      \<and> fin_le (10 ^ 100) (fz (position_fp s)) \<longrightarrow>
      isFinite (fx (velocity_fp (animate_fp dt s))) \<and> isFinite (fy (velocity_fp (animate_fp dt s)))
      \<and> isFinite (fz (velocity_fp (animate_fp dt s)))
      \<and> isFinite (fx (position_fp (animate_fp dt s))) \<and> isFinite (fy (position_fp (animate_fp dt s)))
      \<and> isFinite (fz (position_fp (animate_fp dt s))))
   \<and> (fy (direction_fp s) = Fin 0 \<longrightarrow> fy (direction_fp (animate_fp dt s)) = Fin 0)"
proof (intro conjI impI)
  show "normalize_divisor_fp v \<noteq> Fin 0"
    by (rule normalize_divisor_fp_nonzero)
next
  assume h: "\<not> moveForward_fp s \<and> \<not> moveBackward_fp s \<and> \<not> moveLeft_fp s \<and> \<not> moveRight_fp s
      \<and> fy (direction_fp s) = Fin 0"
  then have p: "animate_physics_fp dt s = s\<lparr>velocity_fp :=
          \<lparr>fx = fsub (fx (velocity_fp s)) (fmul (fmul (fx (velocity_fp s)) (Fin 10)) dt),
           fy = fsub (fy (velocity_fp s)) (fmul (Fin 9.8) dt),
           fz = fsub (fz (velocity_fp s)) (fmul (fmul (fz (velocity_fp s)) (Fin 10)) dt)\<rparr>,
        direction_fp := \<lparr>fx = Fin 0, fy = Fin 0, fz = Fin 0\<rparr>,
        position_fp :=
          \<lparr>fx = fadd (fx (position_fp s))
                 (fmul (fsub (fx (velocity_fp s)) (fmul (fmul (fx (velocity_fp s)) (Fin 10)) dt)) dt),
           fy = fadd (fy (position_fp s))
                 (fmul (fsub (fy (velocity_fp s)) (fmul (Fin 9.8) dt)) dt),
           fz = fadd (fz (position_fp s))
                 (fmul (fsub (fz (velocity_fp s)) (fmul (fmul (fz (velocity_fp s)) (Fin 10)) dt)) dt)\<rparr>\<rparr>"
    by (intro idle_physics_fp) simp_all
  from h show "normalize_divisor_fp ((direction_fp s)
          \<lparr>fz := fsub (Number_of_bool_fp (moveForward_fp s)) (Number_of_bool_fp (moveBackward_fp s)),
           fx := fsub (Number_of_bool_fp (moveRight_fp s)) (Number_of_bool_fp (moveLeft_fp s))\<rparr>) = Fin 1"
    by (intro idle_divisor_fp) simp_all
  show "direction_fp (animate_fp dt s) = \<lparr>fx = Fin 0, fy = Fin 0, fz = Fin 0\<rparr>"
    by (simp add: animate_fp_def animate_ground_fp_xz p)
  show "fx (velocity_fp (animate_fp dt s)) =
          fsub (fx (velocity_fp s)) (fmul (fmul (fx (velocity_fp s)) (Fin 10)) dt)"
    by (simp add: animate_fp_def animate_ground_fp_xz p)
  show "fz (velocity_fp (animate_fp dt s)) =
          fsub (fz (velocity_fp s)) (fmul (fmul (fz (velocity_fp s)) (Fin 10)) dt)"
    by (simp add: animate_fp_def animate_ground_fp_xz p)
  show "fx (position_fp (animate_fp dt s)) =
          fadd (fx (position_fp s)) (fmul (fx (velocity_fp (animate_fp dt s))) dt)"
    by (simp add: animate_fp_def animate_ground_fp_xz p)
  show "fz (position_fp (animate_fp dt s)) =
          fadd (fz (position_fp s)) (fmul (fz (velocity_fp (animate_fp dt s))) dt)"
    by (simp add: animate_fp_def animate_ground_fp_xz p)
next
  assume b: "\<not> moveForward_fp s \<and> \<not> moveBackward_fp s \<and> \<not> moveLeft_fp s \<and> \<not> moveRight_fp s
      \<and> fy (direction_fp s) = Fin 0
      \<and> fin_le (10 ^ 100) dt
      \<and> fin_le (10 ^ 100) (fx (velocity_fp s)) \<and> fin_le (10 ^ 100) (fy (velocity_fp s))
      \<and> fin_le (10 ^ 100) (fz (velocity_fp s))
      \<and> fin_le (10 ^ 100) (fx (position_fp s)) \<and> fin_le (10 ^ 100) (fy (position_fp s))
      \<and> fin_le (10 ^ 100) (fz (position_fp s))"
  then have p: "animate_physics_fp dt s = s\<lparr>velocity_fp :=
          \<lparr>fx = fsub (fx (velocity_fp s)) (fmul (fmul (fx (velocity_fp s)) (Fin 10)) dt),
           fy = fsub (fy (velocity_fp s)) (fmul (Fin 9.8) dt),
           fz = fsub (fz (velocity_fp s)) (fmul (fmul (fz (velocity_fp s)) (Fin 10)) dt)\<rparr>,
        direction_fp := \<lparr>fx = Fin 0, fy = Fin 0, fz = Fin 0\<rparr>,
        position_fp :=
          \<lparr>fx = fadd (fx (position_fp s))
                 (fmul (fsub (fx (velocity_fp s)) (fmul (fmul (fx (velocity_fp s)) (Fin 10)) dt)) dt),
           fy = fadd (fy (position_fp s))
                 (fmul (fsub (fy (velocity_fp s)) (fmul (Fin 9.8) dt)) dt),
           fz = fadd (fz (position_fp s))
                 (fmul (fsub (fz (velocity_fp s)) (fmul (fmul (fz (velocity_fp s)) (Fin 10)) dt)) dt)\<rparr>\<rparr>"
    by (intro idle_physics_fp) simp_all
  from b have dt: "fin_le (10 ^ 100) dt" by simp
  have vx: "fin_le (10 ^ 100 + 10 ^ 100 * 10 * 10 ^ 100)
      (fsub (fx (velocity_fp s)) (fmul (fmul (fx (velocity_fp s)) (Fin 10)) dt))"
    using b by (intro damp_fin_le) simp_all
  have vz: "fin_le (10 ^ 100 + 10 ^ 100 * 10 * 10 ^ 100)
      (fsub (fz (velocity_fp s)) (fmul (fmul (fz (velocity_fp s)) (Fin 10)) dt))"
    using b by (intro damp_fin_le) simp_all
  have vy: "fin_le (10 ^ 100 + 10 * 10 ^ 100) (fsub (fy (velocity_fp s)) (fmul (Fin 9.8) dt))"
    using b by (intro gravity_fin_le) simp_all
  have px: "isFinite (fadd (fx (position_fp s))
      (fmul (fsub (fx (velocity_fp s)) (fmul (fmul (fx (velocity_fp s)) (Fin 10)) dt)) dt))"
    using b vx dt by (intro move_fin_le [where k = "10 ^ 100 + 10 ^ 100 * 10 * 10 ^ 100"]) simp_all
  have pz: "isFinite (fadd (fz (position_fp s))
      (fmul (fsub (fz (velocity_fp s)) (fmul (fmul (fz (velocity_fp s)) (Fin 10)) dt)) dt))"
    using b vz dt by (intro move_fin_le [where k = "10 ^ 100 + 10 ^ 100 * 10 * 10 ^ 100"]) simp_all
  have py: "isFinite (fadd (fy (position_fp s)) (fmul (fsub (fy (velocity_fp s)) (fmul (Fin 9.8) dt)) dt))"
    using b vy dt by (intro move_fin_le [where k = "10 ^ 100 + 10 * 10 ^ 100"]) simp_all
  show "isFinite (fx (velocity_fp (animate_fp dt s)))"
    using fin_le_isFinite [OF vx] by (simp add: animate_fp_def animate_ground_fp_xz p)
  show "isFinite (fz (velocity_fp (animate_fp dt s)))"
    using fin_le_isFinite [OF vz] by (simp add: animate_fp_def animate_ground_fp_xz p)
  show "isFinite (fx (position_fp (animate_fp dt s)))"
    using px by (simp add: animate_fp_def animate_ground_fp_xz p)
  show "isFinite (fz (position_fp (animate_fp dt s)))"
    using pz by (simp add: animate_fp_def animate_ground_fp_xz p)
  have "isFinite (fy (velocity_fp (animate_physics_fp dt s)))"
    using fin_le_isFinite [OF vy] by (simp add: p)
  then show "isFinite (fy (velocity_fp (animate_fp dt s)))"
    unfolding animate_fp_def by (rule animate_ground_fp_y)
  have "isFinite (fy (position_fp (animate_physics_fp dt s)))"
    using py by (simp add: p)
  then show "isFinite (fy (position_fp (animate_fp dt s)))"
    unfolding animate_fp_def by (rule animate_ground_fp_y)
next
  assume "fy (direction_fp s) = Fin 0"
  then show "fy (direction_fp (animate_fp dt s)) = Fin 0"
    by (rule direction_y_kept)
qed

theorem idle_tick_safe_witness:
  "\<not> moveForward_fp coasting \<and> \<not> moveBackward_fp coasting
   \<and> \<not> moveLeft_fp coasting \<and> \<not> moveRight_fp coasting
   \<and> fy (direction_fp coasting) = Fin 0
   \<and> direction_fp coasting = \<lparr>fx = Fin 1, fy = Fin 0, fz = Fin 0\<rparr>
   \<and> fin_le (10 ^ 100) (Fin (1 / 8))
   \<and> fin_le (10 ^ 100) (fx (velocity_fp coasting)) \<and> fin_le (10 ^ 100) (fy (velocity_fp coasting))
   \<and> fin_le (10 ^ 100) (fz (velocity_fp coasting))
   \<and> fin_le (10 ^ 100) (fx (position_fp coasting)) \<and> fin_le (10 ^ 100) (fy (position_fp coasting))
   \<and> fin_le (10 ^ 100) (fz (position_fp coasting))
   \<and> direction_fp (animate_fp (Fin (1 / 8)) coasting) = \<lparr>fx = Fin 0, fy = Fin 0, fz = Fin 0\<rparr>
   \<and> velocity_fp (animate_fp (Fin (1 / 8)) coasting) = \<lparr>fx = Fin 1.25, fy = Fin 0, fz = Fin (- 7.5)\<rparr>
   \<and> position_fp (animate_fp (Fin (1 / 8)) coasting) =
       \<lparr>fx = Fin 6.90625, fy = Fin 2, fz = Fin (- 5.4375)\<rparr>
   \<and> isFinite (fx (velocity_fp (animate_fp (Fin (1 / 8)) coasting)))
   \<and> isFinite (fy (velocity_fp (animate_fp (Fin (1 / 8)) coasting)))
   \<and> isFinite (fz (velocity_fp (animate_fp (Fin (1 / 8)) coasting)))
   \<and> isFinite (fx (position_fp (animate_fp (Fin (1 / 8)) coasting)))
   \<and> isFinite (fy (position_fp (animate_fp (Fin (1 / 8)) coasting)))
   \<and> isFinite (fz (position_fp (animate_fp (Fin (1 / 8)) coasting)))"
proof -
  have h: "\<not> moveForward_fp coasting \<and> \<not> moveBackward_fp coasting
      \<and> \<not> moveLeft_fp coasting \<and> \<not> moveRight_fp coasting
      \<and> fy (direction_fp coasting) = Fin 0
      \<and> direction_fp coasting = \<lparr>fx = Fin 1, fy = Fin 0, fz = Fin 0\<rparr>"
    by (simp add: coasting_def)
  have b: "fin_le (10 ^ 100) (Fin (1 / 8))
      \<and> fin_le (10 ^ 100) (fx (velocity_fp coasting)) \<and> fin_le (10 ^ 100) (fy (velocity_fp coasting))
      \<and> fin_le (10 ^ 100) (fz (velocity_fp coasting))
      \<and> fin_le (10 ^ 100) (fx (position_fp coasting)) \<and> fin_le (10 ^ 100) (fy (position_fp coasting))
      \<and> fin_le (10 ^ 100) (fz (position_fp coasting))"
    by (simp add: coasting_def fin_le_def)
  have v: "velocity_fp (animate_fp (Fin (1 / 8)) coasting) =
        \<lparr>fx = Fin 1.25, fy = Fin 0, fz = Fin (- 7.5)\<rparr>"
    "position_fp (animate_fp (Fin (1 / 8)) coasting) =
       \<lparr>fx = Fin 6.90625, fy = Fin 2, fz = Fin (- 5.4375)\<rparr>"
    by (simp_all add: coasting_def tick_fp_defs fp_defs Let_def js_number_small)
  have t: "normalize_divisor_fp (direction_fp coasting) \<noteq> Fin 0
   \<and> (\<not> moveForward_fp coasting \<and> \<not> moveBackward_fp coasting \<and> \<not> moveLeft_fp coasting
      \<and> \<not> moveRight_fp coasting \<and> fy (direction_fp coasting) = Fin 0 \<longrightarrow>
      normalize_divisor_fp ((direction_fp coasting)
          \<lparr>fz := fsub (Number_of_bool_fp (moveForward_fp coasting))
                        (Number_of_bool_fp (moveBackward_fp coasting)),
           fx := fsub (Number_of_bool_fp (moveRight_fp coasting))
                        (Number_of_bool_fp (moveLeft_fp coasting))\<rparr>) = Fin 1
      \<and> direction_fp (animate_fp (Fin (1 / 8)) coasting) = \<lparr>fx = Fin 0, fy = Fin 0, fz = Fin 0\<rparr>
      \<and> fx (velocity_fp (animate_fp (Fin (1 / 8)) coasting)) =
          fsub (fx (velocity_fp coasting)) (fmul (fmul (fx (velocity_fp coasting)) (Fin 10)) (Fin (1 / 8)))
      \<and> fz (velocity_fp (animate_fp (Fin (1 / 8)) coasting)) =
          fsub (fz (velocity_fp coasting)) (fmul (fmul (fz (velocity_fp coasting)) (Fin 10)) (Fin (1 / 8)))
      \<and> fx (position_fp (animate_fp (Fin (1 / 8)) coasting)) =
          fadd (fx (position_fp coasting))
            (fmul (fx (velocity_fp (animate_fp (Fin (1 / 8)) coasting))) (Fin (1 / 8)))
      \<and> fz (position_fp (animate_fp (Fin (1 / 8)) coasting)) =
          fadd (fz (position_fp coasting))
            (fmul (fz (velocity_fp (animate_fp (Fin (1 / 8)) coasting))) (Fin (1 / 8))))
   \<and> (\<not> moveForward_fp coasting \<and> \<not> moveBackward_fp coasting \<and> \<not> moveLeft_fp coasting
      \<and> \<not> moveRight_fp coasting \<and> fy (direction_fp coasting) = Fin 0
      \<and> fin_le (10 ^ 100) (Fin (1 / 8))
      \<and> fin_le (10 ^ 100) (fx (velocity_fp coasting)) \<and> fin_le (10 ^ 100) (fy (velocity_fp coasting))
      \<and> fin_le (10 ^ 100) (fz (velocity_fp coasting))
      \<and> fin_le (10 ^ 100) (fx (position_fp coasting)) \<and> fin_le (10 ^ 100) (fy (position_fp coasting))
      \<and> fin_le (10 ^ 100) (fz (position_fp coasting)) \<longrightarrow>
      isFinite (fx (velocity_fp (animate_fp (Fin (1 / 8)) coasting)))
      \<and> isFinite (fy (velocity_fp (animate_fp (Fin (1 / 8)) coasting)))
      \<and> isFinite (fz (velocity_fp (animate_fp (Fin (1 / 8)) coasting)))
      \<and> isFinite (fx (position_fp (animate_fp (Fin (1 / 8)) coasting)))
      \<and> isFinite (fy (position_fp (animate_fp (Fin (1 / 8)) coasting)))
      \<and> isFinite (fz (position_fp (animate_fp (Fin (1 / 8)) coasting))))
   \<and> (fy (direction_fp coasting) = Fin 0 \<longrightarrow>
        fy (direction_fp (animate_fp (Fin (1 / 8)) coasting)) = Fin 0)"
    by (rule idle_tick_safe)
  from t h b v show ?thesis
    by blast
qed

end
